theory Spec2Isabelle
  imports Complex_Main "HOL-Library.Code_Target_Nat"
begin

section \<open>JavaScript strings\<close>

text \<open>
  A JavaScript string is a sequence of UTF-16 code units; a code unit is modelled as a
  natural number. \<open>js\<close> embeds an ASCII literal.

  A number is modelled as the real number it stands for, and arithmetic is exact. The
  program computes with IEEE doubles: a decimal such as \<open>4.1\<close> or \<open>0.3\<close> is the nearest
  double there, and every operation rounds. So the two can differ in the last place of a
  computed number, which shows where such a number is compared with a bound that it
  reaches, and in the digits that \<open>toFixed\<close> prints. The values \<open>NaN\<close> and \<open>Infinity\<close> are
  outside the model.
\<close>

type_synonym jsstring = "nat list"

definition js :: "string \<Rightarrow> jsstring" where
  "js s = map of_char s"

text \<open>The code units matched by \<open>\s\<close> in a regular expression and removed by \<open>trim\<close>.\<close>

definition isWhitespace :: "nat \<Rightarrow> bool" where
  "isWhitespace c \<longleftrightarrow>
     c \<in> set [9, 10, 11, 12, 13, 32, 160, 0x1680, 0x2028, 0x2029, 0x202F, 0x205F, 0x3000, 0xFEFF]
     \<or> (0x2000 \<le> c \<and> c \<le> 0x200A)"

text \<open>The code units matched by \<open>\d\<close> and by \<open>\w\<close>.\<close>

definition isDigit :: "nat \<Rightarrow> bool" where
  "isDigit c \<longleftrightarrow> 48 \<le> c \<and> c \<le> 57"

definition isWordChar :: "nat \<Rightarrow> bool" where
  "isWordChar c \<longleftrightarrow> isDigit c \<or> (65 \<le> c \<and> c \<le> 90) \<or> (97 \<le> c \<and> c \<le> 122) \<or> c = 95"

text \<open>
  \<open>String.prototype.toLowerCase\<close>, on the letters of Basic Latin and Latin-1. The model
  leaves every other code unit as it is, which is what the language does on the code units
  without case, such as the punctuation; the case mapping of the other scripts, the
  two-unit lower case of \<open>U+0130\<close> and the rule for a final capital sigma, which looks at
  the neighbours of the letter, are outside the model.
\<close>

definition toLowerUnit :: "nat \<Rightarrow> nat" where
  "toLowerUnit c =
     (if (65 \<le> c \<and> c \<le> 90) \<or> (192 \<le> c \<and> c \<le> 214) \<or> (216 \<le> c \<and> c \<le> 222)
      then c + 32 else c)"

definition toLowerCase :: "jsstring \<Rightarrow> jsstring" where
  "toLowerCase s = map toLowerUnit s"

definition trim :: "jsstring \<Rightarrow> jsstring" where
  "trim s = rev (dropWhile isWhitespace (rev (dropWhile isWhitespace s)))"

fun startsWith :: "jsstring \<Rightarrow> jsstring \<Rightarrow> bool" where
  "startsWith s [] = True"
| "startsWith [] (p # ps) = False"
| "startsWith (c # cs) (p # ps) = (c = p \<and> startsWith cs ps)"

text \<open>\<open>String.prototype.includes\<close>\<close>

fun includes_str :: "jsstring \<Rightarrow> jsstring \<Rightarrow> bool" where
  "includes_str [] p = (p = [])"
| "includes_str (c # cs) p = (startsWith (c # cs) p \<or> includes_str cs p)"

text \<open>\<open>s.replace(/\s+/g, ' ')\<close>: every maximal run of whitespace becomes one space.\<close>

function replaceWhitespaceRuns :: "jsstring \<Rightarrow> jsstring" where
  "replaceWhitespaceRuns [] = []"
| "replaceWhitespaceRuns (c # cs) =
     (if isWhitespace c then 32 # replaceWhitespaceRuns (dropWhile isWhitespace cs)
      else c # replaceWhitespaceRuns cs)"
  by pat_completeness auto
termination
  by (relation "measure length") (auto simp: less_Suc_eq_le length_dropWhile_le)

text \<open>\<open>s.replace(/[...]/g, r)\<close> for a character class given as the list of its members.\<close>

definition replaceClass :: "nat list \<Rightarrow> jsstring \<Rightarrow> jsstring \<Rightarrow> jsstring" where
  "replaceClass cls r s = concat (map (\<lambda>c. if c \<in> set cls then r else [c]) s)"

section \<open>Text normalization and similarity (verification.ts)\<close>

definition normalizeText :: "jsstring \<Rightarrow> jsstring" where
  "normalizeText text =
     trim
       (replaceClass [0x2026] (js ''...'')
         (replaceClass [0x2013] (js ''-'')
           (replaceClass [0x201C, 0x201D] (js ''\"'')
             (replaceClass [0x2018, 0x2019, 0x27, 0x60, 0xB4] [0x27]
               (replaceWhitespaceRuns (toLowerCase text))))))"


text \<open>
  A write \<open>a[i] = v\<close> to a JavaScript array: inside the array it replaces the element, at
  \<open>i = a.length\<close> it appends. (A write further out would leave holes; the loops below
  write inside an array or at its end only.)
\<close>

definition setIndex :: "'a list \<Rightarrow> nat \<Rightarrow> 'a \<Rightarrow> 'a list" where
  "setIndex a i v = (if i < length a then a[i := v] else a @ [v])"

text \<open>
  The distance matrix of \<open>stringSimilarity\<close>: the three loops of the source, each a
  \<open>fold\<close> over the values its counter takes.
\<close>

definition levenshteinCell :: "jsstring \<Rightarrow> jsstring \<Rightarrow> nat \<Rightarrow> nat \<Rightarrow> nat list list \<Rightarrow> nat list list" where
  "levenshteinCell s1 s2 i j matrix =
     (let cost = (if s1 ! (i - 1) = s2 ! (j - 1) then 0 else 1)
      in setIndex matrix i (setIndex (matrix ! i) j
           (min (matrix ! (i - 1) ! j + 1)
             (min (matrix ! i ! (j - 1) + 1)
                  (matrix ! (i - 1) ! (j - 1) + cost)))))"

definition levenshteinMatrix :: "jsstring \<Rightarrow> jsstring \<Rightarrow> nat list list" where
  "levenshteinMatrix s1 s2 =
     (let matrix = fold (\<lambda>i matrix. setIndex matrix i [i]) [0..<Suc (length s1)] [];
          matrix = fold (\<lambda>j matrix. setIndex matrix 0 (setIndex (matrix ! 0) j j))
                     [0..<Suc (length s2)] matrix
      in fold (\<lambda>i matrix. fold (levenshteinCell s1 s2 i) [1..<Suc (length s2)] matrix)
           [1..<Suc (length s1)] matrix)"

definition stringSimilarity :: "jsstring \<Rightarrow> jsstring \<Rightarrow> real" where
  "stringSimilarity str1 str2 =
     (let s1 = normalizeText str1; s2 = normalizeText str2
      in if s1 = s2 then 1.0
         else if length s1 = 0 \<or> length s2 = 0 then 0.0
         else let distance = levenshteinMatrix s1 s2 ! length s1 ! length s2;
                  maxLength = max (length s1) (length s2)
              in 1 - real distance / real maxLength)"

section \<open>OCR error patterns (constraints.ts)\<close>

definition characterSubstitutions :: "(jsstring \<times> jsstring) list" where
  "characterSubstitutions =
     [(js ''0'', js ''O''), (js ''O'', js ''0''), (js ''1'', js ''l''), (js ''1'', js ''I''),
      (js ''l'', js ''1''), (js ''I'', js ''1''), (js ''5'', js ''S''), (js ''S'', js ''5''),
      (js ''8'', js ''B''), (js ''B'', js ''8''), (js ''rn'', js ''m''), (js ''m'', js ''rn'')]"

definition possessiveNormalization :: bool where "possessiveNormalization = True"
definition normalizeQuotes :: bool where "normalizeQuotes = True"
definition normalizeWhitespace :: bool where "normalizeWhitespace = True"

text \<open>
  Case-insensitive matching of a regular expression without the \<open>u\<close> flag compares the
  canonical (upper-case) forms of single code units. For the ASCII patterns used here a
  code unit outside ASCII never matches, so only the ASCII letters are folded.
\<close>

definition canonicalize :: "nat \<Rightarrow> nat" where
  "canonicalize c = (if 97 \<le> c \<and> c \<le> 122 then c - 32 else c)"

fun startsWithCI :: "jsstring \<Rightarrow> jsstring \<Rightarrow> bool" where
  "startsWithCI s [] = True"
| "startsWithCI [] (p # ps) = False"
| "startsWithCI (c # cs) (p # ps) = (canonicalize c = canonicalize p \<and> startsWithCI cs ps)"

text \<open>
  \<open>s.replace(new RegExp(pat, 'gi'), rep)\<close> for a non-empty pattern \<open>pat\<close> without
  metacharacters: the matches are replaced from left to right and do not overlap.
\<close>

fun replaceAllCI :: "jsstring \<Rightarrow> jsstring \<Rightarrow> jsstring \<Rightarrow> jsstring" where
  "replaceAllCI pat rep [] = []"
| "replaceAllCI pat rep (c # cs) =
     (if startsWithCI (c # cs) pat then rep @ replaceAllCI pat rep (drop (length pat - 1) cs)
      else c # replaceAllCI pat rep cs)"

text \<open>\<open>s.replace(/'s\b/g, 's')\<close>: after the word character \<open>s\<close> the boundary \<open>\b\<close> holds
  at the end of the string and before a character that is not a word character.\<close>

fun replacePossessive :: "jsstring \<Rightarrow> jsstring" where
  "replacePossessive (c # d # cs) =
     (if c = 0x27 \<and> d = 0x73 \<and> (case cs of [] \<Rightarrow> True | e # _ \<Rightarrow> \<not> isWordChar e)
      then 0x73 # replacePossessive cs
      else c # replacePossessive (d # cs))"
| "replacePossessive cs = cs"

definition normalizeForOcrErrors :: "jsstring \<Rightarrow> jsstring" where
  "normalizeForOcrErrors text =
     (let normalized = toLowerCase text;
          normalized = (if normalizeWhitespace then trim (replaceWhitespaceRuns normalized)
                        else normalized);
          normalized = (if normalizeQuotes
                        then replaceClass [0x201C, 0x201D] (js ''\"'')
                               (replaceClass [0x2018, 0x2019, 0x27, 0x60, 0xB4] [0x27] normalized)
                        else normalized);
          normalized = (if possessiveNormalization then replacePossessive normalized
                        else normalized)
      in normalized)"

text \<open>
  The loop of \<open>areSemanticallySimilar\<close> over the substitution table: \<open>testStr\<close> is the
  loop's variable, assigned in every iteration by \<open>applySubstitution\<close>.
\<close>

definition applySubstitution :: "jsstring \<times> jsstring \<Rightarrow> jsstring \<Rightarrow> jsstring" where
  "applySubstitution sub testStr = replaceAllCI (fst sub) (toLowerCase (snd sub)) testStr"

fun trySubstitutions :: "(jsstring \<times> jsstring) list \<Rightarrow> jsstring \<Rightarrow> jsstring \<Rightarrow> bool" where
  "trySubstitutions [] testStr norm2 = False"
| "trySubstitutions (sub # subs) testStr norm2 =
     (let testStr = applySubstitution sub testStr
      in if testStr = norm2 then True else trySubstitutions subs testStr norm2)"

definition areSemanticallySimilar :: "jsstring \<Rightarrow> jsstring \<Rightarrow> bool" where
  "areSemanticallySimilar str1 str2 =
     (let norm1 = normalizeForOcrErrors str1; norm2 = normalizeForOcrErrors str2
      in if norm1 = norm2 then True
         else trySubstitutions characterSubstitutions norm1 norm2)"

text \<open>
  The reading of the specification, for comparison: every table entry is applied to the
  first normalized string itself, and nothing is carried from one entry to the next.
\<close>

definition independentSubstitutions :: "(jsstring \<times> jsstring) list \<Rightarrow> jsstring \<Rightarrow> jsstring \<Rightarrow> bool" where
  "independentSubstitutions subs norm1 norm2 =
     list_ex (\<lambda>sub. applySubstitution sub norm1 = norm2) subs"

definition semanticallyEqual_spec :: "jsstring \<Rightarrow> jsstring \<Rightarrow> bool" where
  "semanticallyEqual_spec str1 str2 =
     (let norm1 = normalizeForOcrErrors str1; norm2 = normalizeForOcrErrors str2
      in if norm1 = norm2 then True
         else independentSubstitutions characterSubstitutions norm1 norm2)"

section \<open>Tolerance rules (constraints.ts)\<close>

datatype BeverageType = wine | beer | distilled_spirits

text \<open>\<open>ALCOHOL_CONTENT_RULES.tolerances\<close>\<close>

definition spirits_standard :: real where "spirits_standard = 0.3"
definition spirits_highProof :: real where "spirits_highProof = 0.15"
definition spirits_highProofThreshold :: real where "spirits_highProofThreshold = 50"
definition wine_tableWine :: real where "wine_tableWine = 1.5"
definition wine_dessertWine :: real where "wine_dessertWine = 1.0"
definition wine_threshold :: real where "wine_threshold = 14"
definition beer_standard :: real where "beer_standard = 0.3"

definition getAlcoholTolerance :: "BeverageType \<Rightarrow> real \<Rightarrow> real" where
  "getAlcoholTolerance beverageType abv =
     (case beverageType of
        distilled_spirits \<Rightarrow>
          if abv > spirits_highProofThreshold then spirits_highProof else spirits_standard
      | wine \<Rightarrow> if abv > wine_threshold then wine_dessertWine else wine_tableWine
      | beer \<Rightarrow> beer_standard)"

text \<open>\<open>NET_CONTENTS_RULES.standardSizes\<close>\<close>

definition standardSizes :: "BeverageType \<Rightarrow> real list" where
  "standardSizes beverageType =
     (case beverageType of
        distilled_spirits \<Rightarrow> [50, 100, 200, 375, 750, 1000, 1750]
      | wine \<Rightarrow> [187, 375, 500, 750, 1000, 1500, 3000]
      | beer \<Rightarrow> [355, 473, 650, 946])"

definition isStandardFillSize :: "BeverageType \<Rightarrow> real \<Rightarrow> bool" where
  "isStandardFillSize beverageType volumeMl =
     list_ex (\<lambda>size. \<bar>size - volumeMl\<bar> < 5) (standardSizes beverageType)"

text \<open>Thresholds: \<open>CONFIDENCE_THRESHOLDS\<close>, \<open>MATCHING_THRESHOLDS.brandName\<close>,
  \<open>GOVERNMENT_WARNING_RULES.minSimilarity\<close> and \<open>PROCESSING_CONSTRAINTS.targetTimeMs\<close>.\<close>

definition threshold_medium :: real where "threshold_medium = 0.70"
definition autoApprovalMinimum :: real where "autoApprovalMinimum = 0.85"
definition humanReviewThreshold :: real where "humanReviewThreshold = 0.75"
definition exactMatchThreshold :: real where "exactMatchThreshold = 1.0"
definition highSimilarityThreshold :: real where "highSimilarityThreshold = 0.90"
definition reviewThreshold :: real where "reviewThreshold = 0.70"
definition minSimilarity :: real where "minSimilarity = 0.95"
definition targetTimeMs :: real where "targetTimeMs = 5000"

section \<open>Regular expressions\<close>

text \<open>
  The patterns of \<open>ALCOHOL_CONTENT_PATTERNS\<close> and \<open>NET_CONTENTS_PATTERNS\<close> are built from
  single code units (a digit, a whitespace character, a literal compared without case),
  greedy repetitions of one, sequence, ordered alternative and greedy option.
  \<open>rxMatch r s k\<close> matches \<open>r\<close> at the start of \<open>s\<close> and hands the rest of the input to
  the continuation \<open>k\<close>; when \<open>k\<close> fails, the next alternative in the backtracking order
  of ECMAScript is tried.
\<close>

datatype unitclass = Digit | Space | Chr nat

fun matchesUnit :: "unitclass \<Rightarrow> nat \<Rightarrow> bool" where
  "matchesUnit Digit c = isDigit c"
| "matchesUnit Space c = isWhitespace c"
| "matchesUnit (Chr p) c = (canonicalize c = canonicalize p)"

datatype rx = Eps | Never | One unitclass | Star unitclass | Plus unitclass
  | Seq rx rx | Alt rx rx | Opt rx

fun rxMatch :: "rx \<Rightarrow> jsstring \<Rightarrow> (jsstring \<Rightarrow> 'a option) \<Rightarrow> 'a option" where
  "rxMatch Eps s k = k s"
| "rxMatch Never s k = None"
| "rxMatch (One u) s k =
     (case s of [] \<Rightarrow> None | c # cs \<Rightarrow> if matchesUnit u c then k cs else None)"
| "rxMatch (Star u) s k =
     (case s of [] \<Rightarrow> k []
      | c # cs \<Rightarrow>
          if matchesUnit u c
          then (case rxMatch (Star u) cs k of Some r \<Rightarrow> Some r | None \<Rightarrow> k s)
          else k s)"
| "rxMatch (Plus u) s k =
     (case s of [] \<Rightarrow> None
      | c # cs \<Rightarrow> if matchesUnit u c then rxMatch (Star u) cs k else None)"
| "rxMatch (Seq a b) s k = rxMatch a s (\<lambda>s'. rxMatch b s' k)"
| "rxMatch (Alt a b) s k =
     (case rxMatch a s k of Some r \<Rightarrow> Some r | None \<Rightarrow> rxMatch b s k)"
| "rxMatch (Opt a) s k =
     (case rxMatch a s k of Some r \<Rightarrow> Some r | None \<Rightarrow> k s)"

text \<open>\<open>String.prototype.match\<close> without the \<open>g\<close> flag: the leftmost start that matches.\<close>

fun rxSearch :: "(jsstring \<Rightarrow> 'a option) \<Rightarrow> jsstring \<Rightarrow> 'a option" where
  "rxSearch matchAt [] = matchAt []"
| "rxSearch matchAt (c # cs) =
     (case matchAt (c # cs) of Some r \<Rightarrow> Some r | None \<Rightarrow> rxSearch matchAt cs)"

definition lit :: "string \<Rightarrow> rx" where
  "lit s = foldr (\<lambda>c r. Seq (One (Chr (of_char c))) r) s Eps"

definition seq :: "rx list \<Rightarrow> rx" where
  "seq rs = foldr Seq rs Eps"

definition alt :: "rx list \<Rightarrow> rx" where
  "alt rs = foldr Alt rs Never"

text \<open>\<open>(\d+(?:\.\d+)?)\<close>\<close>

definition decimal_rx :: rx where
  "decimal_rx = Seq (Plus Digit) (Opt (Seq (lit ''.'') (Plus Digit)))"

text \<open>\<open>/(\d+(?:\.\d+)?)\s*%\s*(?:alc\.?\/vol\.?|abv|alcohol\s*by\s*volume)/i\<close>, giving group 1.\<close>

definition percentagePattern :: "jsstring \<Rightarrow> jsstring option" where
  "percentagePattern content =
     rxSearch (\<lambda>s. rxMatch decimal_rx s (\<lambda>s1.
       rxMatch (seq [Star Space, lit ''%'', Star Space,
                     alt [seq [lit ''alc'', Opt (lit ''.''), lit ''/vol'', Opt (lit ''.'')],
                          lit ''abv'',
                          seq [lit ''alcohol'', Star Space, lit ''by'', Star Space, lit ''volume'']]])
         s1 (\<lambda>s2. Some (take (length s - length s1) s)))) content"

text \<open>\<open>/(\d+)\s*proof/i\<close>, giving group 1.\<close>

definition proofPattern :: "jsstring \<Rightarrow> jsstring option" where
  "proofPattern content =
     rxSearch (\<lambda>s. rxMatch (Plus Digit) s (\<lambda>s1.
       rxMatch (seq [Star Space, lit ''proof'']) s1
         (\<lambda>s2. Some (take (length s - length s1) s)))) content"

text \<open>\<open>/(\d+(?:\.\d+)?)\s*(mL|L|ml|l|liters?|milliliters?)/i\<close>, giving groups 1 and 2.\<close>

definition metricPattern :: "jsstring \<Rightarrow> (jsstring \<times> jsstring) option" where
  "metricPattern contents =
     rxSearch (\<lambda>s. rxMatch decimal_rx s (\<lambda>s1. rxMatch (Star Space) s1 (\<lambda>s2.
       rxMatch (alt [lit ''mL'', lit ''L'', lit ''ml'', lit ''l'',
                     Seq (lit ''liter'') (Opt (lit ''s'')),
                     Seq (lit ''milliliter'') (Opt (lit ''s''))])
         s2 (\<lambda>s3. Some (take (length s - length s1) s, take (length s2 - length s3) s2)))))
       contents"

text \<open>\<open>/(\d+(?:\.\d+)?)\s*(fl\.?\s*oz\.?|oz\.?|ounces?)/i\<close>, giving groups 1 and 2.\<close>

definition imperialPattern :: "jsstring \<Rightarrow> (jsstring \<times> jsstring) option" where
  "imperialPattern contents =
     rxSearch (\<lambda>s. rxMatch decimal_rx s (\<lambda>s1. rxMatch (Star Space) s1 (\<lambda>s2.
       rxMatch (alt [seq [lit ''fl'', Opt (lit ''.''), Star Space, lit ''oz'', Opt (lit ''.'')],
                     Seq (lit ''oz'') (Opt (lit ''.'')),
                     Seq (lit ''ounce'') (Opt (lit ''s''))])
         s2 (\<lambda>s3. Some (take (length s - length s1) s, take (length s2 - length s3) s2)))))
       contents"

text \<open>
  \<open>parseInt(s, 10)\<close> and \<open>parseFloat(s)\<close> on a capture of the shape \<open>\d+\<close> or
  \<open>\d+\.\d+\<close>: the decimal value, as an exact number.
\<close>

definition parseInt :: "jsstring \<Rightarrow> nat" where
  "parseInt s = foldl (\<lambda>n c. 10 * n + (c - 48)) 0 (takeWhile isDigit s)"

definition parseFloat :: "jsstring \<Rightarrow> real" where
  "parseFloat s =
     (case dropWhile isDigit s of
        [] \<Rightarrow> real (parseInt s)
      | dot # fraction \<Rightarrow>
          real (parseInt s) + real (parseInt fraction) / 10 ^ length (takeWhile isDigit fraction))"

section \<open>Field comparison (verification.ts)\<close>

text \<open>
  A note that quotes a number renders it with \<open>Number.prototype.toString\<close>, which has no
  counterpart on exact numbers; such a note is kept as its template and its arguments.
  Nothing in the program reads a note back.
\<close>

datatype fieldNote =
    NoteText jsstring
  | WithinTolerance real real real
  | AlcoholMismatch real real real
  | MinorProofDifference int int
  | ProofMismatch int int
  | MinorNetContentsDifference real real "jsstring option"

text \<open>What a comparison returns; its field \<open>notes\<close> is \<open>notes_f\<close> here.\<close>

record ComparisonResult =
  matches :: bool
  confidence :: real
  notes_f :: "fieldNote option"

definition compareBrandNames :: "jsstring \<Rightarrow> jsstring \<Rightarrow> ComparisonResult" where
  "compareBrandNames applicationName labelName =
     (if areSemanticallySimilar applicationName labelName
      then \<lparr>matches = True, confidence = 1.0, notes_f = None\<rparr>
      else
        let similarity = stringSimilarity applicationName labelName
        in if similarity \<ge> exactMatchThreshold
           then \<lparr>matches = True, confidence = 1.0, notes_f = None\<rparr>
           else if similarity \<ge> highSimilarityThreshold
           then \<lparr>matches = True, confidence = similarity,
                  notes_f = Some (NoteText (js ''Minor difference detected: \"'' @ applicationName
                            @ js ''\" vs \"'' @ labelName @ js ''\"''))\<rparr>
           else if similarity \<ge> reviewThreshold
           then \<lparr>matches = False, confidence = similarity,
                  notes_f = Some (NoteText (js ''Possible match requiring review: \"''
                            @ applicationName @ js ''\" vs \"'' @ labelName @ js ''\"''))\<rparr>
           else \<lparr>matches = False, confidence = similarity,
                  notes_f = Some (NoteText (js ''Mismatch: \"'' @ applicationName
                            @ js ''\" vs \"'' @ labelName @ js ''\"''))\<rparr>)"

text \<open>
  The fields \<open>percentage\<close> and \<open>proof\<close> of the parsed alcohol content; \<open>None\<close> is \<open>null\<close>.
  The difference of two percentages is the exact one here. In the program it is the rounded
  difference of two doubles: for \<open>4.1%\<close> against \<open>4.4%\<close> that is \<open>0.3000000000000007\<close>,
  above a tolerance of \<open>0.3\<close> that the exact difference meets.
\<close>

record ParsedAlcohol =
  percentage :: "real option"
  proofValue :: "int option"

definition parseAlcoholContent :: "jsstring \<Rightarrow> ParsedAlcohol" where
  "parseAlcoholContent content =
     (let percentMatch = percentagePattern content;
          proofMatch = proofPattern content
      in \<lparr>percentage = (case percentMatch of Some g \<Rightarrow> Some (parseFloat g) | None \<Rightarrow> None),
          proofValue = (case proofMatch of Some g \<Rightarrow> Some (int (parseInt g)) | None \<Rightarrow> None)\<rparr>)"

definition compareAlcoholContent :: "jsstring \<Rightarrow> jsstring \<Rightarrow> BeverageType \<Rightarrow> ComparisonResult" where
  "compareAlcoholContent applicationContent labelContent beverageType =
     (let appParsed = parseAlcoholContent applicationContent;
          labelParsed = parseAlcoholContent labelContent
      in case (percentage appParsed, percentage labelParsed) of
           (Some appPercentage, Some labelPercentage) \<Rightarrow>
             (let diff = \<bar>appPercentage - labelPercentage\<bar>
              in if diff = 0 then \<lparr>matches = True, confidence = 1.0, notes_f = None\<rparr>
                 else
                   let tolerance = getAlcoholTolerance beverageType appPercentage
                   in if diff \<le> tolerance
                      then \<lparr>matches = True, confidence = 1 - (diff / tolerance) * 0.1,
                             notes_f = (if diff > 0.05
                                      then Some (WithinTolerance tolerance appPercentage labelPercentage)
                                      else None)\<rparr>
                      else \<lparr>matches = False, confidence = 0.0,
                             notes_f = Some (AlcoholMismatch appPercentage labelPercentage tolerance)\<rparr>)
         | _ \<Rightarrow>
             (case (proofValue appParsed, proofValue labelParsed) of
                (Some appProof, Some labelProof) \<Rightarrow>
                  (let proofDiff = \<bar>appProof - labelProof\<bar>
                   in if proofDiff = 0 then \<lparr>matches = True, confidence = 1.0, notes_f = None\<rparr>
                      else if proofDiff \<le> 1
                      then \<lparr>matches = True, confidence = 0.95,
                             notes_f = Some (MinorProofDifference appProof labelProof)\<rparr>
                      else \<lparr>matches = False, confidence = 0.0,
                             notes_f = Some (ProofMismatch appProof labelProof)\<rparr>)
              | _ \<Rightarrow>
                  (let similarity = stringSimilarity applicationContent labelContent
                   in \<lparr>matches = (similarity \<ge> 0.9), confidence = similarity,
                        notes_f = (if similarity < 0.9
                                 then Some (NoteText (js ''Could not parse alcohol content for comparison''))
                                 else None)\<rparr>)))"

text \<open>The fields \<open>value\<close>, \<open>unit\<close> and \<open>originalUnit\<close> of the parsed net contents.\<close>

record ParsedNetContents =
  pValue :: "real option"
  pUnit :: "jsstring option"
  originalUnit :: "jsstring option"

definition parseNetContents :: "jsstring \<Rightarrow> ParsedNetContents" where
  "parseNetContents contents =
     (let metricMatch = metricPattern contents;
          imperialMatch = imperialPattern contents
      in case metricMatch of
           Some (number, metricUnit) \<Rightarrow>
             (let v = parseFloat number;
                  u = toLowerCase metricUnit;
                  v = (if (u = js ''l'' \<or> u = js ''liter'' \<or> u = js ''liters'')
                          \<and> \<not> includes_str u (js ''milli'')
                       then v * 1000 else v)
              in \<lparr>pValue = Some v, pUnit = Some (js ''ml''), originalUnit = Some metricUnit\<rparr>)
         | None \<Rightarrow>
             (case imperialMatch of
                Some (number, imperialUnit) \<Rightarrow>
                  \<lparr>pValue = Some (parseFloat number), pUnit = Some (js ''fl oz''),
                   originalUnit = Some imperialUnit\<rparr>
              | None \<Rightarrow> \<lparr>pValue = None, pUnit = None, originalUnit = None\<rparr>))"

text \<open>
  In \<open>compareNetContents\<close> the block for equal units returns in two of its cases and
  otherwise falls through to the conversion block; \<open>sameUnit\<close> is what that block returns,
  if it does.
\<close>

definition compareNetContents :: "jsstring \<Rightarrow> jsstring \<Rightarrow> BeverageType \<Rightarrow> ComparisonResult" where
  "compareNetContents applicationContents labelContents beverageType =
     (let appParsed = parseNetContents applicationContents;
          labelParsed = parseNetContents labelContents
      in case (pValue appParsed, pValue labelParsed) of
           (Some appValue, Some labelValue) \<Rightarrow>
             (let sameUnit =
                    (if pUnit appParsed = pUnit labelParsed
                     then if appValue = labelValue
                          then let valueMl = (if pUnit appParsed = Some (js ''ml'') then appValue
                                              else appValue * 29.5735);
                                   isStandard = isStandardFillSize beverageType valueMl
                               in Some \<lparr>matches = True, confidence = 1.0,
                                         notes_f = (if \<not> isStandard
                                                  then Some (NoteText (js ''Non-standard container size: ''
                                                               @ applicationContents))
                                                  else None)\<rparr>
                          else let diff = \<bar>appValue - labelValue\<bar>;
                                   tolerance = appValue * 0.01
                               in if diff \<le> tolerance
                                  then Some \<lparr>matches = True, confidence = 0.95,
                                         notes_f = Some (MinorNetContentsDifference appValue labelValue
                                                         (pUnit appParsed))\<rparr>
                                  else None
                     else None)
              in case sameUnit of
                   Some result \<Rightarrow> result
                 | None \<Rightarrow>
                     (let appMl = (if pUnit appParsed = Some (js ''fl oz'') then appValue * 29.5735
                                   else appValue);
                          labelMl = (if pUnit labelParsed = Some (js ''fl oz'') then labelValue * 29.5735
                                     else labelValue)
                      in if \<bar>appMl - labelMl\<bar> < 5
                         then \<lparr>matches = True, confidence = 0.90,
                                notes_f = Some (NoteText (js ''Matched after unit conversion: ''
                                          @ applicationContents @ [0x20, 0x2248, 0x20] @ labelContents))\<rparr>
                         else \<lparr>matches = False, confidence = 0.0,
                                notes_f = Some (NoteText (js ''Net contents mismatch: ''
                                          @ applicationContents @ js '' vs '' @ labelContents))\<rparr>))
         | _ \<Rightarrow>
             (let similarity = stringSimilarity applicationContents labelContents
              in \<lparr>matches = (similarity \<ge> 0.9), confidence = similarity, notes_f = None\<rparr>))"

definition compareStrings :: "jsstring \<Rightarrow> jsstring \<Rightarrow> real \<Rightarrow> ComparisonResult" where
  "compareStrings app label threshold =
     (let similarity = stringSimilarity app label
      in \<lparr>matches = (similarity \<ge> threshold), confidence = similarity,
           notes_f = (if similarity < threshold
                    then Some (NoteText (js ''Values differ: \"'' @ app @ js ''\" vs \"''
                                 @ label @ js ''\"''))
                    else None)\<rparr>)"

text \<open>
  An optional string is \<open>None\<close> when it is \<open>undefined\<close>; \<open>!v\<close> holds for \<open>undefined\<close> and
  for the empty string.
\<close>

definition truthy :: "jsstring option \<Rightarrow> bool" where
  "truthy v = (case v of None \<Rightarrow> False | Some s \<Rightarrow> s \<noteq> [])"

record FieldVerification = ComparisonResult +
  field :: jsstring
  applicationValue :: jsstring
  labelValue :: "jsstring option"

definition verifyField ::
  "jsstring \<Rightarrow> jsstring option \<Rightarrow> jsstring option
     \<Rightarrow> (jsstring \<Rightarrow> jsstring \<Rightarrow> ComparisonResult) \<Rightarrow> FieldVerification" where
  "verifyField fieldName appValue labValue compareFn =
     (if \<not> truthy appValue
      then \<lparr>matches = True, confidence = 1.0,
             notes_f = Some (NoteText (js ''Field not specified in application'')),
             field = fieldName, applicationValue = [], labelValue = labValue\<rparr>
      else if \<not> truthy labValue
      then \<lparr>matches = False, confidence = 0.0,
             notes_f = Some (NoteText (js ''Field not found on label'')),
             field = fieldName, applicationValue = the appValue, labelValue = None\<rparr>
      else
        let result = compareFn (the appValue) (the labValue)
        in \<lparr>matches = matches result, confidence = confidence result, notes_f = notes_f result,
             field = fieldName, applicationValue = the appValue, labelValue = labValue\<rparr>)"

section \<open>Government warning validation (verification.ts)\<close>

definition GOVERNMENT_WARNING_TEXT :: jsstring where
  "GOVERNMENT_WARNING_TEXT = js ''GOVERNMENT WARNING: (1) According to the Surgeon General, women should not drink alcoholic beverages during pregnancy because of the risk of birth defects. (2) Consumption of alcoholic beverages impairs your ability to drive a car or operate machinery, and may cause health problems.''"

definition GOVERNMENT_WARNING_REQUIRED_PHRASES :: "jsstring list" where
  "GOVERNMENT_WARNING_REQUIRED_PHRASES =
     [js ''government warning'', js ''surgeon general'', js ''women should not drink'',
      js ''pregnancy'', js ''birth defects'', js ''impairs your ability'', js ''drive a car'',
      js ''operate machinery'', js ''health problems'']"

text \<open>The decimal digits of a natural number, and \<open>Array.prototype.join\<close>.\<close>

fun digits :: "nat \<Rightarrow> jsstring" where
  "digits n = (if n < 10 then [48 + n] else digits (n div 10) @ [48 + n mod 10])"

fun join :: "jsstring list \<Rightarrow> jsstring \<Rightarrow> jsstring" where
  "join [] sep = []"
| "join [x] sep = x"
| "join (x # y # ys) sep = x @ sep @ join (y # ys) sep"

text \<open>
  \<open>x.toFixed(f)\<close> for a number below \<open>1e21\<close> in absolute value: the sign, then the
  integer nearest to \<open>\<bar>x\<bar> * 10 ^ f\<close> (the larger one of two), written with \<open>f\<close> digits
  after the point. The argument is an exact product here; the program rounds the product
  to a double first, so that for \<open>0.575 * 100\<close> it prints \<open>57\<close> where the exact product
  gives \<open>58\<close>.
\<close>

definition toFixed :: "real \<Rightarrow> nat \<Rightarrow> jsstring" where
  "toFixed x f =
     (let sign = (if x < 0 then js ''-'' else []);
          n = nat \<lfloor>\<bar>x\<bar> * 10 ^ f + 1 / 2\<rfloor>;
          m = digits n;
          m = (if length m \<le> f then replicate (f + 1 - length m) 48 @ m else m);
          k = length m
      in if f = 0 then sign @ m else sign @ take (k - f) m @ js ''.'' @ drop (k - f) m)"

text \<open>
  The results of the two validators share \<open>present\<close> and \<open>correct\<close>; the basic one adds
  \<open>notes\<close> and \<open>issues\<close> (here \<open>warningNotes\<close>, \<open>warningIssues\<close>), the enhanced one
  \<open>issues\<close> and \<open>confidence\<close> (here \<open>issues\<close>, \<open>warningConfidence\<close>).
\<close>

record WarningStatus =
  present :: bool
  correct :: bool

record WarningResult = WarningStatus +
  warningNotes :: "jsstring option"
  warningIssues :: "jsstring list option"

definition missingPhrases :: "jsstring \<Rightarrow> jsstring list" where
  "missingPhrases normalizedWarning =
     filter (\<lambda>phrase. \<not> includes_str normalizedWarning (toLowerCase phrase))
       GOVERNMENT_WARNING_REQUIRED_PHRASES"

definition missingPhrasesIssue :: "jsstring list \<Rightarrow> jsstring" where
  "missingPhrasesIssue missing =
     js ''Missing required phrases: '' @ join (take 3 missing) (js '', '')
       @ (if length missing > 3 then js ''...'' else [])"

definition validateGovernmentWarning :: "jsstring option \<Rightarrow> WarningResult" where
  "validateGovernmentWarning warningText =
     (if \<not> truthy warningText \<or> length (trim (the warningText)) = 0
      then \<lparr>present = False, correct = False,
             warningNotes = Some (js ''Government warning not found on label''),
             warningIssues = Some [js ''Government warning text not found'']\<rparr>
      else
        let text = the warningText; issueList = []
        in if \<not> includes_str text (js ''GOVERNMENT WARNING:'')
           then if includes_str (toLowerCase text) (js ''government warning'')
                then let issueList =
                           (if includes_str text (js ''Government Warning:'')
                            then issueList @ [js ''\"GOVERNMENT WARNING:\" must be in ALL CAPS (found \"Government Warning:\" in title case)'']
                            else if includes_str text (js ''government warning:'')
                            then issueList @ [js ''\"GOVERNMENT WARNING:\" must be in ALL CAPS (found lowercase)'']
                            else if includes_str text (js ''GOVERNMENT WARNING'')
                                    \<and> \<not> includes_str text (js ''GOVERNMENT WARNING:'')
                            then issueList @ [js ''Missing colon after \"GOVERNMENT WARNING\"'']
                            else issueList @ [js ''\"GOVERNMENT WARNING:\" must be in ALL CAPS''])
                     in \<lparr>present = True, correct = False, warningNotes = Some (issueList ! 0),
                          warningIssues = Some issueList\<rparr>
                else \<lparr>present = False, correct = False,
                       warningNotes = Some (js ''Government warning prefix not found''),
                       warningIssues = Some [js ''Government warning prefix \"GOVERNMENT WARNING:\" not found'']\<rparr>
           else
             let normalizedWarning = normalizeText text;
                 normalizedRequired = normalizeText GOVERNMENT_WARNING_TEXT;
                 missing = missingPhrases normalizedWarning;
                 issueList = (if length missing > 0 then issueList @ [missingPhrasesIssue missing]
                           else issueList);
                 similarity = stringSimilarity normalizedWarning normalizedRequired
             in if similarity \<ge> minSimilarity
                then \<lparr>present = True, correct = True, warningNotes = None,
                       warningIssues = (if length issueList > 0 then Some issueList else None)\<rparr>
                else if similarity \<ge> 0.85
                then \<lparr>present = True, correct = False,
                       warningNotes = Some (js ''Government warning text differs slightly from required text''),
                       warningIssues = Some (issueList @ [js ''Warning text '' @ toFixed (similarity * 100) 0
                                                @ js ''% similar to required text''])\<rparr>
                else if similarity \<ge> 0.70
                then \<lparr>present = True, correct = False,
                       warningNotes = Some (js ''Government warning text differs from required text''),
                       warningIssues = Some (issueList @ [js ''Warning text only '' @ toFixed (similarity * 100) 0
                                                @ js ''% similar to required text''])\<rparr>
                else \<lparr>present = True, correct = False,
                       warningNotes = Some (js ''Government warning text significantly differs from required text''),
                       warningIssues = Some (issueList @ [js ''Warning text significantly different (''
                                                @ toFixed (similarity * 100) 0 @ js ''% match)''])\<rparr>)"

record GovernmentWarningDetails =
  prefixInAllCaps :: bool
  appearsBold :: "bool option"
  onContrastingBackground :: "bool option"
  textComplete :: bool
  detailIssues :: "jsstring list"

record ImageQualityAssessment =
  overallScore :: real
  qualityIssues :: "jsstring list"
  recommendResubmit :: bool
  details :: "jsstring option"

datatype ProducerRole = bottled_by | produced_by | distilled_by | imported_by | blended_by

text \<open>
  The two input records. The fields of \<open>ApplicationData\<close> carry the prefix \<open>app_\<close>, since
  \<open>ExtractedLabelData\<close> has fields of the same names; \<open>proof\<close>, \<open>confidence\<close> and the
  several \<open>issues\<close> are renamed where the name is taken.
\<close>

record ApplicationData =
  app_brandName :: jsstring
  app_fancifulName :: "jsstring option"
  app_classType :: jsstring
  app_beverageType :: BeverageType
  app_alcoholContent :: jsstring
  app_proof :: "jsstring option"
  app_netContents :: jsstring
  app_producerName :: jsstring
  app_producerAddress :: jsstring
  app_countryOfOrigin :: "jsstring option"
  app_vintageYear :: "jsstring option"
  app_appellation :: "jsstring option"
  app_healthClaimsOrStatements :: "jsstring option"
  app_containsSulfites :: "bool option"
  app_ageStatement :: "jsstring option"

record ExtractedLabelData =
  brandName :: "jsstring option"
  fancifulName :: "jsstring option"
  classType :: "jsstring option"
  alcoholContent :: "jsstring option"
  proofStatement :: "jsstring option"
  netContents :: "jsstring option"
  producerName :: "jsstring option"
  producerAddress :: "jsstring option"
  producerRole :: "ProducerRole option"
  countryOfOrigin :: "jsstring option"
  governmentWarning :: "jsstring option"
  governmentWarningFormatCorrect :: "bool option"
  governmentWarningDetails :: "GovernmentWarningDetails option"
  vintageYear :: "jsstring option"
  appellation :: "jsstring option"
  containsSulfites :: "bool option"
  ageStatement :: "jsstring option"
  rawText :: "jsstring option"
  extractionConfidence :: real
  fieldConfidences :: "(jsstring \<times> real) list option"
  imageQuality :: "ImageQualityAssessment option"
  extractionNotes :: "jsstring option"

record EnhancedWarningResult = WarningStatus +
  issues :: "jsstring list"
  warningConfidence :: real

text \<open>The issues that the block over \<open>warningDetails\<close> appends, in the order of the source.\<close>

definition detailsIssues :: "GovernmentWarningDetails \<Rightarrow> jsstring list \<Rightarrow> jsstring list" where
  "detailsIssues warningDetails issueList =
     (let issueList = (if \<not> prefixInAllCaps warningDetails
                       \<and> \<not> list_ex (\<lambda>i. includes_str i (js ''ALL CAPS'')) issueList
                    then issueList @ [js ''\"GOVERNMENT WARNING:\" prefix not in ALL CAPS'']
                    else issueList);
          issueList = (if appearsBold warningDetails = Some False
                    then issueList @ [js ''\"GOVERNMENT WARNING:\" should be in bold type (flagged for review)'']
                    else issueList);
          issueList = (if \<not> textComplete warningDetails
                    then issueList @ [js ''Government warning text appears incomplete'']
                    else issueList);
          issueList = (if length (detailIssues warningDetails) > 0
                    then issueList @ filter (\<lambda>i. i \<notin> set issueList) (detailIssues warningDetails)
                    else issueList)
      in issueList)"

definition validateGovernmentWarningEnhanced :: "ExtractedLabelData \<Rightarrow> EnhancedWarningResult" where
  "validateGovernmentWarningEnhanced extractedData =
     (let warningText = governmentWarning extractedData;
          warningDetails = governmentWarningDetails extractedData;
          basicResult = validateGovernmentWarning warningText;
          issueList = (case warningIssues basicResult of Some basicIssues \<Rightarrow> basicIssues | None \<Rightarrow> [])
      in if \<not> present basicResult
         then \<lparr>present = False, correct = False,
                issues = (if length issueList > 0 then issueList else [js ''Government warning not found'']),
                warningConfidence = 0\<rparr>
         else
           let issueList = (case warningDetails of Some d \<Rightarrow> detailsIssues d issueList | None \<Rightarrow> issueList);
               normalizedWarning = normalizeText (case warningText of Some t \<Rightarrow> t | None \<Rightarrow> []);
               normalizedRequired = normalizeText GOVERNMENT_WARNING_TEXT;
               similarity = stringSimilarity normalizedWarning normalizedRequired
           in \<lparr>present = present basicResult,
                correct = (correct basicResult \<and> length issueList = 0),
                issues = issueList, warningConfidence = similarity\<rparr>)"

section \<open>The main verification function (verification.ts)\<close>

datatype VerificationStatus = approved | rejected | needs_review

text \<open>
  The result of \<open>verifyLabel\<close>, without its \<open>id\<close> and \<open>timestamp\<close>: these come from a
  random generator and from the clock, and nothing else depends on them.
\<close>

record VerificationResult =
  status :: VerificationStatus
  overallConfidence :: real
  processingTimeMs :: real
  fieldVerifications :: "FieldVerification list"
  governmentWarningPresent :: bool
  governmentWarningCorrect :: bool
  governmentWarningNotes :: "jsstring option"
  governmentWarningIssues :: "jsstring list"
  extractedData :: ExtractedLabelData
  matchedFields :: nat
  totalFields :: nat
  flaggedIssues :: "jsstring list"
  requiresHumanReview :: bool
  humanReviewReasons :: "jsstring list"
  imageQualityScore :: "real option"
  imageQualityIssues :: "jsstring list option"
  meetsTargetTime :: bool

text \<open>The field comparisons of \<open>verifyLabel\<close>, one definition for each call of \<open>verifyField\<close>.\<close>

definition brandNameVerification :: "ApplicationData \<Rightarrow> ExtractedLabelData \<Rightarrow> FieldVerification" where
  "brandNameVerification applicationData extracted =
     verifyField (js ''Brand Name'') (Some (app_brandName applicationData)) (brandName extracted)
       compareBrandNames"

definition classTypeVerification :: "ApplicationData \<Rightarrow> ExtractedLabelData \<Rightarrow> FieldVerification" where
  "classTypeVerification applicationData extracted =
     verifyField (js ''Class/Type'') (Some (app_classType applicationData)) (classType extracted)
       (\<lambda>app label. compareStrings app label 0.85)"

definition alcoholVerification :: "ApplicationData \<Rightarrow> ExtractedLabelData \<Rightarrow> FieldVerification" where
  "alcoholVerification applicationData extracted =
     verifyField (js ''Alcohol Content'') (Some (app_alcoholContent applicationData))
       (alcoholContent extracted)
       (\<lambda>app label. compareAlcoholContent app label (app_beverageType applicationData))"

definition netContentsVerification :: "ApplicationData \<Rightarrow> ExtractedLabelData \<Rightarrow> FieldVerification" where
  "netContentsVerification applicationData extracted =
     verifyField (js ''Net Contents'') (Some (app_netContents applicationData))
       (netContents extracted)
       (\<lambda>app label. compareNetContents app label (app_beverageType applicationData))"

definition producerVerification :: "ApplicationData \<Rightarrow> ExtractedLabelData \<Rightarrow> FieldVerification" where
  "producerVerification applicationData extracted =
     verifyField (js ''Producer Name'') (Some (app_producerName applicationData))
       (producerName extracted) (\<lambda>app label. compareStrings app label 0.80)"

definition countryVerification :: "ApplicationData \<Rightarrow> ExtractedLabelData \<Rightarrow> FieldVerification" where
  "countryVerification applicationData extracted =
     verifyField (js ''Country of Origin'') (app_countryOfOrigin applicationData)
       (countryOfOrigin extracted) (\<lambda>app label. compareStrings app label 0.90)"

definition vintageVerification :: "ApplicationData \<Rightarrow> ExtractedLabelData \<Rightarrow> FieldVerification" where
  "vintageVerification applicationData extracted =
     verifyField (js ''Vintage Year'') (app_vintageYear applicationData) (vintageYear extracted)
       (\<lambda>app label.
          \<lparr>matches = (app = label), confidence = (if app = label then 1.0 else 0.0),
           notes_f = (if app \<noteq> label
                      then Some (NoteText (js ''Vintage year mismatch: '' @ app @ js '' vs '' @ label))
                      else None)\<rparr>)"

definition appellationVerification :: "ApplicationData \<Rightarrow> ExtractedLabelData \<Rightarrow> FieldVerification" where
  "appellationVerification applicationData extracted =
     verifyField (js ''Appellation'') (app_appellation applicationData) (appellation extracted)
       (\<lambda>app label. compareStrings app label 0.85)"

text \<open>
  The three arrays that \<open>verifyLabel\<close> fills before it decides, and the warning
  validation. Every \<open>push\<close> of the source is an append here, in the order of the source.
\<close>

record Gathered =
  verifications :: "FieldVerification list"
  flagged :: "jsstring list"
  reasons :: "jsstring list"
  warningValidation :: EnhancedWarningResult

definition gatherFields :: "ApplicationData \<Rightarrow> ExtractedLabelData \<Rightarrow>
    FieldVerification list \<times> jsstring list \<times> jsstring list" where
  "gatherFields applicationData extracted =
     (let beverageType = app_beverageType applicationData;
          fvs = []; fl = []; rs = [];
          brand = brandNameVerification applicationData extracted;
          fvs = fvs @ [brand];
          rs = (if \<not> matches brand \<and> confidence brand \<ge> reviewThreshold
                then rs @ [js ''Brand name requires review: similar but not exact match (''
                            @ toFixed (confidence brand * 100) 0 @ js ''% similar)'']
                else rs);
          fl = (if \<not> matches brand \<and> \<not> confidence brand \<ge> reviewThreshold
                then fl @ [js ''Brand name mismatch''] else fl);
          classT = classTypeVerification applicationData extracted;
          fvs = fvs @ [classT];
          rs = (if \<not> matches classT \<and> confidence classT \<ge> 0.70
                then rs @ [js ''Class/type requires review''] else rs);
          fl = (if \<not> matches classT \<and> \<not> confidence classT \<ge> 0.70
                then fl @ [js ''Class/type mismatch''] else fl);
          alcohol = alcoholVerification applicationData extracted;
          fvs = fvs @ [alcohol];
          fl = (if \<not> matches alcohol then fl @ [js ''Alcohol content mismatch''] else fl);
          net = netContentsVerification applicationData extracted;
          fvs = fvs @ [net];
          fl = (if \<not> matches net then fl @ [js ''Net contents mismatch''] else fl);
          rs = (if app_netContents applicationData \<noteq> []
                then let parsed = parseNetContents (app_netContents applicationData)
                     in case pValue parsed of
                          None \<Rightarrow> rs
                        | Some v \<Rightarrow>
                            if v \<noteq> 0
                            then let valueMl = (if pUnit parsed = Some (js ''fl oz'')
                                                then v * 29.5735 else v)
                                 in if \<not> isStandardFillSize beverageType valueMl
                                    then rs @ [js ''Non-standard container size: ''
                                                @ app_netContents applicationData]
                                    else rs
                            else rs
                else rs);
          producer = producerVerification applicationData extracted;
          fvs = fvs @ [producer];
          rs = (if \<not> matches producer \<and> confidence producer \<ge> 0.60
                then rs @ [js ''Producer name requires review''] else rs);
          fl = (if \<not> matches producer \<and> \<not> confidence producer \<ge> 0.60
                then fl @ [js ''Producer name mismatch''] else fl);
          country = countryVerification applicationData extracted;
          hasCountry = truthy (app_countryOfOrigin applicationData);
          fvs = (if hasCountry then fvs @ [country] else fvs);
          fl = (if hasCountry \<and> \<not> matches country
                then fl @ [js ''Country of origin mismatch''] else fl);
          vintage = vintageVerification applicationData extracted;
          hasVintage = (beverageType = wine \<and> truthy (app_vintageYear applicationData));
          fvs = (if hasVintage then fvs @ [vintage] else fvs);
          fl = (if hasVintage \<and> \<not> matches vintage
                then fl @ [js ''Vintage year mismatch''] else fl);
          appell = appellationVerification applicationData extracted;
          hasAppellation = (beverageType = wine \<and> truthy (app_appellation applicationData));
          fvs = (if hasAppellation then fvs @ [appell] else fvs);
          rs = (if hasAppellation \<and> \<not> matches appell
                then rs @ [js ''Appellation requires review''] else rs)
      in (fvs, fl, rs))"

definition gather :: "ApplicationData \<Rightarrow> ExtractedLabelData \<Rightarrow> Gathered" where
  "gather applicationData extracted =
     (case gatherFields applicationData extracted of
        (fvs, fl, rs) \<Rightarrow>
          let wv = validateGovernmentWarningEnhanced extracted;
              fl = (if \<not> present wv then fl @ [js ''Government warning not present'']
                    else if \<not> correct wv
                    then if warningConfidence wv \<ge> 0.85
                         then fl @ [js ''Government warning format/text issue'']
                         else fl @ [js ''Government warning format/text incorrect'']
                    else fl);
              rs = (if present wv \<and> \<not> correct wv \<and> warningConfidence wv \<ge> 0.85
                    then rs @ [js ''Government warning requires review: minor formatting issues'']
                    else rs);
              rs = (case imageQuality extracted of
                      None \<Rightarrow> rs
                    | Some q \<Rightarrow>
                        if recommendResubmit q
                        then rs @ [js ''Image quality issues: '' @ join (qualityIssues q) (js '', '')]
                        else if length (qualityIssues q) > 0 \<and> overallScore q < 0.70
                        then rs @ [js ''Low image quality may affect accuracy (''
                                    @ toFixed (overallScore q * 100) 0 @ js ''%)'']
                        else rs)
          in \<lparr>verifications = fvs, flagged = fl, reasons = rs, warningValidation = wv\<rparr>)"

text \<open>\<open>fieldVerifications.find(f => f.field === name)\<close> with the optional chaining of the
  source: \<open>?.matches\<close> is \<open>undefined\<close>, hence falsy, when nothing is found.\<close>

definition foundMatches :: "jsstring \<Rightarrow> FieldVerification list \<Rightarrow> bool" where
  "foundMatches name fvs =
     (case find (\<lambda>f. field f = name) fvs of None \<Rightarrow> False | Some f \<Rightarrow> matches f)"

definition foundConfidence :: "jsstring \<Rightarrow> FieldVerification list \<Rightarrow> real" where
  "foundConfidence name fvs =
     (case find (\<lambda>f. field f = name) fvs of None \<Rightarrow> 0 | Some f \<Rightarrow> confidence f)"

definition criticalFailures :: "Gathered \<Rightarrow> bool list" where
  "criticalFailures g =
     [\<not> present (warningValidation g),
      \<not> correct (warningValidation g) \<and> warningConfidence (warningValidation g) < 0.85,
      \<not> foundMatches (js ''Brand Name'') (verifications g)
        \<and> foundConfidence (js ''Brand Name'') (verifications g) < reviewThreshold,
      \<not> foundMatches (js ''Alcohol Content'') (verifications g)]"

definition computeOverallConfidence :: "Gathered \<Rightarrow> ExtractedLabelData \<Rightarrow> real" where
  "computeOverallConfidence g extracted =
     (let total = length (verifications g);
          avgFieldConfidence = foldl (\<lambda>sum f. sum + confidence f) 0 (verifications g) / real total
      in min avgFieldConfidence (extractionConfidence extracted))"

text \<open>The decision: the status, \<open>requiresHumanReview\<close> and the final list of reasons.\<close>

definition decide :: "Gathered \<Rightarrow> real \<Rightarrow> VerificationStatus \<times> bool \<times> jsstring list" where
  "decide g overall =
     (let matched = length (filter matches (verifications g));
          total = length (verifications g);
          wv = warningValidation g;
          rs = reasons g;
          requiresReview = (length rs > 0);
          hasCriticalFailure = list_ex (\<lambda>f. f) (criticalFailures g)
      in if hasCriticalFailure
         then if overall \<ge> threshold_medium \<and> length rs > 0
              then (needs_review, True,
                    if \<not> list_ex (\<lambda>r. includes_str r (js ''Critical'')) rs
                    then rs @ [js ''Critical fields may have issues but confidence is moderate'']
                    else rs)
              else (rejected, requiresReview, rs)
         else if matched = total \<and> correct wv \<and> overall \<ge> autoApprovalMinimum \<and> length rs = 0
         then (approved, requiresReview, rs)
         else if overall < humanReviewThreshold \<or> length rs > 0
         then (needs_review, True,
               if overall < humanReviewThreshold
                  \<and> \<not> list_ex (\<lambda>r. includes_str r (js ''confidence'')) rs
               then rs @ [js ''Low confidence score: '' @ toFixed (overall * 100) 1 @ js ''%'']
               else rs)
         else if real matched \<ge> real total * 0.8 \<and> correct wv
         then (needs_review, True, rs @ [js ''Some fields require human verification''])
         else (rejected, requiresReview, rs))"

definition verifyLabel :: "ApplicationData \<Rightarrow> ExtractedLabelData \<Rightarrow> real \<Rightarrow> VerificationResult" where
  "verifyLabel applicationData extracted timeMs =
     (let g = gather applicationData extracted;
          wv = warningValidation g;
          overall = computeOverallConfidence g extracted
      in case decide g overall of
           (st, requiresReview, rs) \<Rightarrow>
             \<lparr>status = st,
              overallConfidence = overall,
              processingTimeMs = timeMs,
              fieldVerifications = verifications g,
              governmentWarningPresent = present wv,
              governmentWarningCorrect = correct wv,
              governmentWarningNotes = (if length (issues wv) > 0 then Some (issues wv ! 0) else None),
              governmentWarningIssues = issues wv,
              extractedData = extracted,
              matchedFields = length (filter matches (verifications g)),
              totalFields = length (verifications g),
              flaggedIssues = flagged g,
              requiresHumanReview = requiresReview,
              humanReviewReasons = rs,
              imageQualityScore = (case imageQuality extracted of None \<Rightarrow> None
                                   | Some q \<Rightarrow> Some (overallScore q)),
              imageQualityIssues = (case imageQuality extracted of None \<Rightarrow> None
                                    | Some q \<Rightarrow> Some (qualityIssues q)),
              meetsTargetTime = (timeMs \<le> targetTimeMs)\<rparr>)"

section \<open>Reference definitions and example inputs\<close>

text \<open>
  The edit distance between the first \<open>i\<close> code units of \<open>s1\<close> and the first \<open>j\<close> of
  \<open>s2\<close>, by the recurrence that the matrix of \<open>stringSimilarity\<close> is filled with, and
  the invariant of the filling: the rows before \<open>i\<close> are complete, row \<open>i\<close> is filled up to
  column \<open>k\<close>, the rows after it still hold their first cell only.
\<close>

fun editDistance :: "jsstring \<Rightarrow> jsstring \<Rightarrow> nat \<Rightarrow> nat \<Rightarrow> nat" where
  "editDistance s1 s2 0 j = j"
| "editDistance s1 s2 (Suc i) 0 = Suc i"
| "editDistance s1 s2 (Suc i) (Suc j) =
     min (editDistance s1 s2 i (Suc j) + 1)
       (min (editDistance s1 s2 (Suc i) j + 1)
            (editDistance s1 s2 i j + (if s1 ! i = s2 ! j then 0 else 1)))"

definition matrixInv :: "jsstring \<Rightarrow> jsstring \<Rightarrow> nat \<Rightarrow> nat \<Rightarrow> nat list list \<Rightarrow> bool" where
  "matrixInv s1 s2 i k matrix \<longleftrightarrow>
     length matrix = Suc (length s1)
     \<and> (\<forall>r<i. matrix ! r = map (editDistance s1 s2 r) [0..<Suc (length s2)])
     \<and> matrix ! i = map (editDistance s1 s2 i) [0..<Suc k]
     \<and> (\<forall>r. i < r \<and> r \<le> length s1 \<longrightarrow> matrix ! r = [r])"

text \<open>
  The four glyph replacements of \<open>normalizeText\<close>, which come between the whitespace
  replacement and \<open>trim\<close>; a string in which no two whitespace characters are adjacent;
  and the number of positions at which two strings differ.
\<close>

definition replaceGlyphs :: "jsstring \<Rightarrow> jsstring" where
  "replaceGlyphs s =
     replaceClass [0x2026] (js ''...'')
       (replaceClass [0x2013] (js ''-'')
         (replaceClass [0x201C, 0x201D] (js ''\"'')
           (replaceClass [0x2018, 0x2019, 0x27, 0x60, 0xB4] [0x27] s)))"

fun singleSpaced :: "jsstring \<Rightarrow> bool" where
  "singleSpaced (c # d # cs) = (\<not> (isWhitespace c \<and> isWhitespace d) \<and> singleSpaced (d # cs))"
| "singleSpaced cs = True"

definition hamming :: "jsstring \<Rightarrow> jsstring \<Rightarrow> nat" where
  "hamming s1 s2 = length (filter (\<lambda>(a, b). a \<noteq> b) (zip s1 s2))"

definition exampleApplication :: ApplicationData where
  "exampleApplication =
     \<lparr>app_brandName = js ''OLD TOM'', app_fancifulName = None,
      app_classType = js ''Bourbon'', app_beverageType = distilled_spirits,
      app_alcoholContent = js ''45% ABV'', app_proof = None, app_netContents = js ''750 mL'',
      app_producerName = js ''Old Tom Co.'', app_producerAddress = js ''Louisville, KY'',
      app_countryOfOrigin = None, app_vintageYear = None, app_appellation = None,
      app_healthClaimsOrStatements = None, app_containsSulfites = None,
      app_ageStatement = None\<rparr>"

definition emptyLabel :: ExtractedLabelData where
  "emptyLabel =
     \<lparr>brandName = None, fancifulName = None, classType = None, alcoholContent = None,
      proofStatement = None, netContents = None, producerName = None, producerAddress = None,
      producerRole = None, countryOfOrigin = None, governmentWarning = None,
      governmentWarningFormatCorrect = None, governmentWarningDetails = None,
      vintageYear = None, appellation = None, containsSulfites = None, ageStatement = None,
      rawText = None, extractionConfidence = 0.95, fieldConfidences = None,
      imageQuality = None, extractionNotes = None\<rparr>"

definition exampleLabel :: ExtractedLabelData where
  "exampleLabel =
     emptyLabel\<lparr>brandName := Some (js ''OLD TOM''), classType := Some (js ''Bourbon''),
       alcoholContent := Some (js ''45.2% ABV''), netContents := Some (js ''750 mL''),
       producerName := Some (js ''Old Tom Co.''),
       governmentWarning := Some GOVERNMENT_WARNING_TEXT\<rparr>"

text \<open>A bottle of a non-standard size whose label matches in every field, without a warning.\<close>

definition oddSizeApplication :: ApplicationData where
  "oddSizeApplication = exampleApplication\<lparr>app_netContents := js ''800 mL''\<rparr>"

definition unwarnedLabel :: ExtractedLabelData where
  "unwarnedLabel =
     emptyLabel\<lparr>brandName := Some (js ''OLD TOM''), classType := Some (js ''Bourbon''),
       alcoholContent := Some (js ''45% ABV''), netContents := Some (js ''800 mL''),
       producerName := Some (js ''Old Tom Co.'')\<rparr>"

text \<open>A warning with one letter of the required phrase \<open>pregnancy\<close> misread.\<close>

definition misreadWarning :: jsstring where
  "misreadWarning = js ''GOVERNMENT WARNING: (1) According to the Surgeon General, women should not drink alcoholic beverages during pregnancx because of the risk of birth defects. (2) Consumption of alcoholic beverages impairs your ability to drive a car or operate machinery, and may cause health problems.''"

definition exampleDetails :: GovernmentWarningDetails where
  "exampleDetails =
     \<lparr>prefixInAllCaps = True, appearsBold = None, onContrastingBackground = None,
      textComplete = True, detailIssues = []\<rparr>"

definition normalizedWarning :: jsstring where
  "normalizedWarning = js ''government warning: (1) according to the surgeon general, women should not drink alcoholic beverages during pregnancy because of the risk of birth defects. (2) consumption of alcoholic beverages impairs your ability to drive a car or operate machinery, and may cause health problems.''"

definition normalizedMisread :: jsstring where
  "normalizedMisread = js ''government warning: (1) according to the surgeon general, women should not drink alcoholic beverages during pregnancx because of the risk of birth defects. (2) consumption of alcoholic beverages impairs your ability to drive a car or operate machinery, and may cause health problems.''"

definition boldTypeIssue :: jsstring where
  "boldTypeIssue = js ''\"GOVERNMENT WARNING:\" should be in bold type (flagged for review)''"

definition allCapsIssue :: jsstring where
  "allCapsIssue = js ''\"GOVERNMENT WARNING:\" prefix not in ALL CAPS''"

definition incompleteIssue :: jsstring where
  "incompleteIssue = js ''Government warning text appears incomplete''"

text \<open>
  The reading of the specification of \<open>normalizeText\<close>, for comparison: the words of the
  lower-cased text, which are its maximal runs of characters other than whitespace, each
  with the quote, dash and ellipsis glyphs replaced, joined by single spaces.
\<close>

function wordsOf :: "jsstring \<Rightarrow> jsstring list" where
  "wordsOf [] = []"
| "wordsOf (c # cs) =
     (if isWhitespace c then wordsOf (dropWhile isWhitespace cs)
      else (c # takeWhile (\<lambda>d. \<not> isWhitespace d) cs)
             # wordsOf (dropWhile (\<lambda>d. \<not> isWhitespace d) cs))"
  by pat_completeness auto
termination
  by (relation "measure length") (auto simp: less_Suc_eq_le length_dropWhile_le)

definition asciiGlyph :: "nat \<Rightarrow> jsstring" where
  "asciiGlyph c =
     (if c \<in> set [0x2018, 0x2019, 0x27, 0x60, 0xB4] then [0x27]
      else if c \<in> set [0x201C, 0x201D] then js ''\"''
      else if c = 0x2013 then js ''-''
      else if c = 0x2026 then js ''...''
      else [c])"

definition normalize_spec :: "jsstring \<Rightarrow> jsstring" where
  "normalize_spec text =
     join (map (\<lambda>w. concat (map asciiGlyph w)) (wordsOf (toLowerCase text))) (js '' '')"

text \<open>
  The code units of Basic Latin, Latin-1 Supplement and General Punctuation. On a text of
  these, \<open>toLowerCase\<close> above is the lower-casing of the language.
\<close>

definition latinUnit :: "nat \<Rightarrow> bool" where
  "latinUnit c \<longleftrightarrow> c < 0x100 \<or> (0x2000 \<le> c \<and> c \<le> 0x206F)"

section \<open>Properties\<close>

text \<open>
  C6: the alcohol tolerance is a step function: 0.3 for distilled spirits up to and
  including 50 and 0.15 above, 1.5 for wine up to and including 14 and 1.0 above, and 0.3
  for beer at every strength.
\<close>

theorem getAlcoholTolerance_steps:
  "getAlcoholTolerance distilled_spirits abv = (if abv \<le> 50 then 0.3 else 0.15)
   \<and> getAlcoholTolerance wine abv = (if abv \<le> 14 then 1.5 else 1.0)
   \<and> getAlcoholTolerance beer abv = 0.3"
  by (simp add: getAlcoholTolerance_def spirits_standard_def spirits_highProof_def
      spirits_highProofThreshold_def wine_tableWine_def wine_dessertWine_def wine_threshold_def
      beer_standard_def)

theorem getAlcoholTolerance_steps_witness:
  "getAlcoholTolerance distilled_spirits 50 = 0.3
   \<and> getAlcoholTolerance distilled_spirits 55 = 0.15
   \<and> getAlcoholTolerance wine 14 = 1.5
   \<and> getAlcoholTolerance wine 18 = 1.0
   \<and> getAlcoholTolerance beer 7 = 0.3"
  using getAlcoholTolerance_steps [of 50] getAlcoholTolerance_steps [of 55]
    getAlcoholTolerance_steps [of 14] getAlcoholTolerance_steps [of 18]
    getAlcoholTolerance_steps [of 7]
  by simp


subsection \<open>Text normalization\<close>

lemma replaceWhitespaceRuns_nonws:
  "\<not> isWhitespace c \<Longrightarrow>
     replaceWhitespaceRuns (xs @ c # ys) = replaceWhitespaceRuns xs @ c # replaceWhitespaceRuns ys"
proof (induction xs rule: replaceWhitespaceRuns.induct)
  case 1
  then show ?case by simp
next
  case (2 d ds)
  show ?case
  proof (cases "isWhitespace d")
    case True
    have "dropWhile isWhitespace (ds @ c # ys) = dropWhile isWhitespace ds @ c # ys"
      using 2(3) by (induction ds) auto
    with True 2 show ?thesis by simp
  next
    case False
    with 2 show ?thesis by simp
  qed
qed

lemma replaceClass_append:
  "replaceClass cls r (xs @ ys) = replaceClass cls r xs @ replaceClass cls r ys"
  by (simp add: replaceClass_def)

lemma replaceClass_Cons:
  "replaceClass cls r (c # cs) = (if c \<in> set cls then r else [c]) @ replaceClass cls r cs"
  by (simp add: replaceClass_def)

lemma replaceClass_Nil: "replaceClass cls r [] = []"
  by (simp add: replaceClass_def)

lemma toLowerCase_append: "toLowerCase (xs @ ys) = toLowerCase xs @ toLowerCase ys"
  by (simp add: toLowerCase_def)

lemma replaceGlyphs_append: "replaceGlyphs (xs @ ys) = replaceGlyphs xs @ replaceGlyphs ys"
  by (simp add: replaceGlyphs_def replaceClass_append)

lemma normalizeText_replaceGlyphs:
  "normalizeText t = trim (replaceGlyphs (replaceWhitespaceRuns (toLowerCase t)))"
  by (simp add: normalizeText_def replaceGlyphs_def)

text \<open>
  In the model lower-casing acts on every code unit by itself, so that a character without
  case and other than whitespace splits the work of \<open>normalizeText\<close> in two.
\<close>

lemma normalizeText_context:
  assumes "\<not> isWhitespace q" "toLowerUnit q = q"
  shows "normalizeText (xs @ q # ys) =
     trim (replaceGlyphs (replaceWhitespaceRuns (toLowerCase xs)) @ replaceGlyphs [q]
           @ replaceGlyphs (replaceWhitespaceRuns (toLowerCase ys)))"
proof -
  have "toLowerCase (xs @ q # ys) = toLowerCase xs @ q # toLowerCase ys"
    using assms(2) by (simp add: toLowerCase_def)
  then have "replaceWhitespaceRuns (toLowerCase (xs @ q # ys))
      = replaceWhitespaceRuns (toLowerCase xs) @ [q] @ replaceWhitespaceRuns (toLowerCase ys)"
    using assms(1) by (simp add: replaceWhitespaceRuns_nonws)
  then show ?thesis
    by (simp only: normalizeText_replaceGlyphs replaceGlyphs_append)
qed

lemma glyph_facts:
  "\<not> isWhitespace 0x2018" "\<not> isWhitespace 0x2019" "\<not> isWhitespace 0x60" "\<not> isWhitespace 0xB4"
  "\<not> isWhitespace 0x27" "\<not> isWhitespace 0x201C" "\<not> isWhitespace 0x201D" "\<not> isWhitespace 0x22"
  "\<not> isWhitespace 0x2013" "\<not> isWhitespace 0x2D" "\<not> isWhitespace 0x2026" "\<not> isWhitespace 0x2E"
  "toLowerUnit 0x2018 = 0x2018" "toLowerUnit 0x2019 = 0x2019" "toLowerUnit 0x60 = 0x60"
  "toLowerUnit 0xB4 = 0xB4" "toLowerUnit 0x27 = 0x27" "toLowerUnit 0x201C = 0x201C"
  "toLowerUnit 0x201D = 0x201D" "toLowerUnit 0x22 = 0x22" "toLowerUnit 0x2013 = 0x2013"
  "toLowerUnit 0x2D = 0x2D" "toLowerUnit 0x2026 = 0x2026" "toLowerUnit 0x2E = 0x2E"
  by (simp_all add: isWhitespace_def toLowerUnit_def)

lemma replaceGlyphs_glyphs:
  "replaceGlyphs [0x2018] = [0x27]" "replaceGlyphs [0x2019] = [0x27]" "replaceGlyphs [0x60] = [0x27]" "replaceGlyphs [0xB4] = [0x27]"
  "replaceGlyphs [0x27] = [0x27]"
  "replaceGlyphs [0x201C] = [0x22]" "replaceGlyphs [0x201D] = [0x22]" "replaceGlyphs [0x22] = [0x22]"
  "replaceGlyphs [0x2013] = [0x2D]" "replaceGlyphs [0x2D] = [0x2D]"
  "replaceGlyphs [0x2026] = [0x2E, 0x2E, 0x2E]" "replaceGlyphs [0x2E] = [0x2E]"
  by (simp_all add: replaceGlyphs_def replaceClass_def js_def)

lemma normalizeText_single_quotes:
  assumes "q \<in> {0x2018, 0x2019, 0x60, 0xB4}"
  shows "normalizeText (xs @ [q] @ ys) = normalizeText (xs @ [0x27] @ ys)"
  using assms by (auto simp add: normalizeText_context glyph_facts replaceGlyphs_glyphs)

lemma normalizeText_double_quotes:
  assumes "q \<in> {0x201C, 0x201D}"
  shows "normalizeText (xs @ [q] @ ys) = normalizeText (xs @ [0x22] @ ys)"
  using assms by (auto simp add: normalizeText_context glyph_facts replaceGlyphs_glyphs)

lemma normalizeText_en_dash:
  "normalizeText (xs @ [0x2013] @ ys) = normalizeText (xs @ [0x2D] @ ys)"
  by (simp add: normalizeText_context glyph_facts replaceGlyphs_glyphs)

lemma normalizeText_ellipsis:
  "normalizeText (xs @ [0x2026] @ ys) = normalizeText (xs @ js ''...'' @ ys)"
proof -
  have "normalizeText (xs @ js ''...'' @ ys) = normalizeText (xs @ 0x2E # ([0x2E, 0x2E] @ ys))"
    by (simp add: js_def)
  also have "\<dots> = trim (replaceGlyphs (replaceWhitespaceRuns (toLowerCase xs)) @ replaceGlyphs [0x2E]
           @ replaceGlyphs (replaceWhitespaceRuns (toLowerCase ([0x2E, 0x2E] @ ys))))"
    by (rule normalizeText_context) (simp_all add: glyph_facts)
  also have "replaceWhitespaceRuns (toLowerCase ([0x2E, 0x2E] @ ys))
      = [0x2E, 0x2E] @ replaceWhitespaceRuns (toLowerCase ys)"
    by (simp add: toLowerCase_def glyph_facts)
  finally have "normalizeText (xs @ js ''...'' @ ys)
      = trim (replaceGlyphs (replaceWhitespaceRuns (toLowerCase xs)) @ replaceGlyphs [0x2E]
           @ replaceGlyphs ([0x2E, 0x2E] @ replaceWhitespaceRuns (toLowerCase ys)))" .
  moreover have "replaceGlyphs ([0x2E, 0x2E] @ replaceWhitespaceRuns (toLowerCase ys))
      = [0x2E, 0x2E] @ replaceGlyphs (replaceWhitespaceRuns (toLowerCase ys))"
    unfolding replaceGlyphs_append by (simp add: replaceGlyphs_def replaceClass_def)
  ultimately show ?thesis
    by (simp add: normalizeText_context glyph_facts replaceGlyphs_glyphs)
qed


lemma set_trim: "set (trim s) \<subseteq> set s"
proof -
  have "set (dropWhile isWhitespace (rev (dropWhile isWhitespace s)))
          \<subseteq> set (rev (dropWhile isWhitespace s))"
    by (auto dest: set_dropWhileD)
  also have "\<dots> \<subseteq> set s" by (auto dest: set_dropWhileD)
  finally show ?thesis by (simp add: trim_def)
qed

lemma set_replaceClass: "set (replaceClass cls r s) \<subseteq> set s \<union> set r"
  by (auto simp add: replaceClass_def split: if_splits)

lemma set_replaceWhitespaceRuns: "set (replaceWhitespaceRuns s) \<subseteq> insert 32 (set s)"
proof (induction s rule: replaceWhitespaceRuns.induct)
  case 1
  then show ?case by simp
next
  case (2 c cs)
  show ?case
  proof (cases "isWhitespace c")
    case True
    with 2 have "set (replaceWhitespaceRuns (dropWhile isWhitespace cs))
        \<subseteq> insert 32 (set (dropWhile isWhitespace cs))" by simp
    also have "\<dots> \<subseteq> insert 32 (set cs)" by (auto dest: set_dropWhileD)
    finally show ?thesis using True by auto
  next
    case False
    with 2 show ?thesis by auto
  qed
qed

lemma set_replaceGlyphs: "set (replaceGlyphs s) \<subseteq> set s \<union> {0x27, 0x22, 0x2D, 0x2E}"
proof -
  have "set (replaceGlyphs s) \<subseteq> set s \<union> set [0x27] \<union> set (js ''\"'') \<union> set (js ''-'') \<union> set (js ''...'')"
    unfolding replaceGlyphs_def
    by (meson set_replaceClass subset_trans Un_mono subset_refl)
  then show ?thesis by (auto simp add: js_def)
qed

lemma toLowerCase_no_capitals: "c \<in> set (toLowerCase t) \<Longrightarrow> \<not> (65 \<le> c \<and> c \<le> 90)"
  by (auto simp add: toLowerCase_def toLowerUnit_def split: if_splits)

lemma normalizeText_no_capitals:
  assumes "c \<in> set (normalizeText t)"
  shows "\<not> (65 \<le> c \<and> c \<le> 90)"
proof -
  from assms have "c \<in> set (replaceGlyphs (replaceWhitespaceRuns (toLowerCase t)))"
    using set_trim by (auto simp add: normalizeText_replaceGlyphs)
  then have "c \<in> set (replaceWhitespaceRuns (toLowerCase t)) \<union> {0x27, 0x22, 0x2D, 0x2E}"
    using set_replaceGlyphs by blast
  then have "c \<in> set (toLowerCase t) \<or> c \<in> {32, 0x27, 0x22, 0x2D, 0x2E}"
    using set_replaceWhitespaceRuns by blast
  then show ?thesis using toLowerCase_no_capitals by fastforce
qed

lemma singleSpaced_Cons:
  "singleSpaced (c # ys) \<longleftrightarrow>
     (ys = [] \<or> \<not> (isWhitespace c \<and> isWhitespace (hd ys))) \<and> singleSpaced ys"
  by (cases ys) auto

lemma singleSpaced_append:
  "singleSpaced (a @ b) \<Longrightarrow> singleSpaced a \<and> singleSpaced b"
proof (induction a)
  case Nil
  then show ?case by simp
next
  case (Cons c a)
  then show ?case by (cases a) (auto simp add: singleSpaced_Cons)
qed

lemma singleSpaced_nonws_append:
  "\<forall>c\<in>set r. \<not> isWhitespace c \<Longrightarrow> singleSpaced rest \<Longrightarrow> singleSpaced (r @ rest)"
  by (induction r) (auto simp add: singleSpaced_Cons)

lemma replaceWhitespaceRuns_hd:
  "xs \<noteq> [] \<Longrightarrow> \<not> isWhitespace (hd xs) \<Longrightarrow>
     replaceWhitespaceRuns xs \<noteq> [] \<and> hd (replaceWhitespaceRuns xs) = hd xs"
  by (cases xs) auto

lemma dropWhile_hd: "dropWhile P xs \<noteq> [] \<Longrightarrow> \<not> P (hd (dropWhile P xs))"
  by (induction xs) auto

lemma singleSpaced_replaceWhitespaceRuns: "singleSpaced (replaceWhitespaceRuns s)"
proof (induction s rule: replaceWhitespaceRuns.induct)
  case 1
  then show ?case by simp
next
  case (2 c cs)
  show ?case
  proof (cases "isWhitespace c")
    case True
    let ?d = "dropWhile isWhitespace cs"
    from True 2 have ih: "singleSpaced (replaceWhitespaceRuns ?d)" by simp
    have "replaceWhitespaceRuns ?d = [] \<or> \<not> isWhitespace (hd (replaceWhitespaceRuns ?d))"
    proof (cases "?d = []")
      case True
      then have "replaceWhitespaceRuns ?d = []"
        by (simp only: replaceWhitespaceRuns.simps)
      then show ?thesis by (rule disjI1)
    next
      case False
      with dropWhile_hd [of isWhitespace cs] replaceWhitespaceRuns_hd [of ?d]
      show ?thesis by simp
    qed
    with ih True show ?thesis by (auto simp add: singleSpaced_Cons)
  next
    case False
    with 2 show ?thesis by (simp add: singleSpaced_Cons)
  qed
qed

lemma whitespace_replaceWhitespaceRuns:
  "c \<in> set (replaceWhitespaceRuns s) \<Longrightarrow> isWhitespace c \<Longrightarrow> c = 32"
proof (induction s rule: replaceWhitespaceRuns.induct)
  case 1
  then show ?case by simp
next
  case (2 d ds)
  then show ?case by (cases "isWhitespace d") auto
qed

lemma replaceClass_hd:
  assumes "\<forall>c\<in>set cls. \<not> isWhitespace c" "r \<noteq> []" "\<forall>c\<in>set r. \<not> isWhitespace c" "s \<noteq> []"
  shows "replaceClass cls r s \<noteq> []
         \<and> (isWhitespace (hd (replaceClass cls r s)) \<longleftrightarrow> isWhitespace (hd s))"
proof (cases s)
  case Nil
  with assms show ?thesis by simp
next
  case (Cons c cs)
  with assms show ?thesis
    by (cases r) (auto simp add: replaceClass_Cons)
qed

lemma singleSpaced_replaceClass:
  assumes "\<forall>c\<in>set cls. \<not> isWhitespace c" "r \<noteq> []" "\<forall>c\<in>set r. \<not> isWhitespace c"
  shows "singleSpaced s \<Longrightarrow> singleSpaced (replaceClass cls r s)"
proof (induction s)
  case Nil
  then show ?case by (simp add: replaceClass_Nil)
next
  case (Cons c cs)
  then have ih: "singleSpaced (replaceClass cls r cs)" by (simp add: singleSpaced_Cons)
  show ?case
  proof (cases "c \<in> set cls")
    case True
    with ih assms(3) show ?thesis
      by (simp add: replaceClass_Cons singleSpaced_nonws_append)
  next
    case False
    show ?thesis
    proof (cases "cs = []")
      case True
      with False show ?thesis by (simp add: replaceClass_Cons replaceClass_Nil)
    next
      case ne: False
      from Cons.prems ne have "\<not> (isWhitespace c \<and> isWhitespace (hd cs))"
        by (simp add: singleSpaced_Cons)
      with replaceClass_hd [OF assms ne] ih False show ?thesis
        by (simp add: replaceClass_Cons singleSpaced_Cons)
    qed
  qed
qed

lemma singleSpaced_replaceGlyphs: "singleSpaced s \<Longrightarrow> singleSpaced (replaceGlyphs s)"
  unfolding replaceGlyphs_def
  by (intro singleSpaced_replaceClass) (simp_all add: js_def glyph_facts)

lemma trim_parts: "\<exists>a b. s = a @ trim s @ b"
proof -
  let ?y = "dropWhile isWhitespace s"
  have "s = takeWhile isWhitespace s @ ?y" by simp
  moreover have "rev ?y = takeWhile isWhitespace (rev ?y) @ dropWhile isWhitespace (rev ?y)"
    by simp
  then have "?y = trim s @ rev (takeWhile isWhitespace (rev ?y))"
    by (metis rev_append rev_rev_ident trim_def)
  ultimately have "s = takeWhile isWhitespace s @ trim s @ rev (takeWhile isWhitespace (rev ?y))"
    by simp
  then show ?thesis by blast
qed

lemma singleSpaced_trim: "singleSpaced s \<Longrightarrow> singleSpaced (trim s)"
proof -
  assume s: "singleSpaced s"
  obtain a b where "s = a @ trim s @ b" using trim_parts by blast
  with s have "singleSpaced (a @ trim s @ b)" by simp
  then show ?thesis using singleSpaced_append by blast
qed

lemma trim_ends:
  assumes "trim s \<noteq> []"
  shows "\<not> isWhitespace (hd (trim s)) \<and> \<not> isWhitespace (last (trim s))"
proof -
  let ?y = "dropWhile isWhitespace s"
  let ?z = "dropWhile isWhitespace (rev ?y)"
  from assms have z: "?z \<noteq> []" by (simp add: trim_def)
  have y: "?y \<noteq> []"
  proof
    assume "?y = []"
    then have "?z = []" by (simp only: rev.simps dropWhile.simps)
    with z show False by (rule notE)
  qed
  have "last (trim s) = hd ?z" using z by (simp add: trim_def last_rev)
  moreover have "\<not> isWhitespace (hd ?z)" using z by (rule dropWhile_hd)
  moreover have "hd (trim s) = last ?z" using z by (simp add: trim_def hd_rev)
  moreover have "last ?z = last (rev ?y)"
  proof -
    have "rev ?y = takeWhile isWhitespace (rev ?y) @ ?z" by simp
    then show ?thesis using z by (metis last_appendR)
  qed
  moreover have "last (rev ?y) = hd ?y" using y by (simp add: last_rev)
  moreover have "\<not> isWhitespace (hd ?y)" using y by (rule dropWhile_hd)
  ultimately show ?thesis by simp
qed

lemma normalizeText_whitespace:
  "singleSpaced (normalizeText t)"
  "c \<in> set (normalizeText t) \<Longrightarrow> isWhitespace c \<Longrightarrow> c = 32"
  "normalizeText t \<noteq> [] \<Longrightarrow>
     \<not> isWhitespace (hd (normalizeText t)) \<and> \<not> isWhitespace (last (normalizeText t))"
proof -
  show "singleSpaced (normalizeText t)"
    by (simp add: normalizeText_replaceGlyphs singleSpaced_trim singleSpaced_replaceGlyphs
        singleSpaced_replaceWhitespaceRuns)
  show "normalizeText t \<noteq> [] \<Longrightarrow>
     \<not> isWhitespace (hd (normalizeText t)) \<and> \<not> isWhitespace (last (normalizeText t))"
    unfolding normalizeText_replaceGlyphs by (rule trim_ends)
  assume c: "c \<in> set (normalizeText t)" and w: "isWhitespace c"
  from c have "c \<in> set (replaceGlyphs (replaceWhitespaceRuns (toLowerCase t)))"
    using set_trim by (auto simp add: normalizeText_replaceGlyphs)
  then have "c \<in> set (replaceWhitespaceRuns (toLowerCase t)) \<union> {0x27, 0x22, 0x2D, 0x2E}"
    using set_replaceGlyphs by blast
  with w have "c \<in> set (replaceWhitespaceRuns (toLowerCase t))"
    by (auto simp add: glyph_facts)
  then show "c = 32" using w by (rule whitespace_replaceWhitespaceRuns)
qed

lemma dropWhile_keeps: "\<not> P q \<Longrightarrow> \<exists>a'. dropWhile P (a @ q # b) = a' @ q # b"
proof (induction a)
  case Nil
  then have "dropWhile P ([] @ q # b) = [] @ q # b" by simp
  then show ?case by blast
next
  case (Cons c a)
  show ?case
  proof (cases "P c")
    case True
    with Cons show ?thesis by simp
  next
    case False
    then have "dropWhile P ((c # a) @ q # b) = (c # a) @ q # b" by simp
    then show ?thesis by blast
  qed
qed

lemma trim_keeps:
  assumes "\<not> isWhitespace q"
  shows "q \<in> set (trim (a @ q # b))"
proof -
  obtain a' where 1: "dropWhile isWhitespace (a @ q # b) = a' @ q # b"
    using dropWhile_keeps [of isWhitespace q a b] assms by blast
  have "rev (a' @ q # b) = rev b @ q # rev a'" by simp
  moreover obtain b' where "dropWhile isWhitespace (rev b @ q # rev a') = b' @ q # rev a'"
    using dropWhile_keeps [of isWhitespace q "rev b" "rev a'"] assms by blast
  ultimately show ?thesis by (simp add: trim_def 1)
qed


lemma normalizeText_example:
  "normalizeText (js ''  HELLO   World  '') = js ''hello world''"
  by code_simp

lemma replaceGlyphs_unit: "replaceGlyphs [c] = concat (map asciiGlyph [c])"
  by (simp add: replaceGlyphs_def replaceClass_def asciiGlyph_def js_def)

lemma replaceGlyphs_concat: "replaceGlyphs s = concat (map asciiGlyph s)"
proof (induction s)
  case Nil
  then show ?case by (simp add: replaceGlyphs_def replaceClass_def)
next
  case (Cons c s)
  have "replaceGlyphs (c # s) = replaceGlyphs ([c] @ s)" by simp
  also have "\<dots> = replaceGlyphs [c] @ replaceGlyphs s" by (rule replaceGlyphs_append)
  finally show ?case using Cons by (simp add: replaceGlyphs_unit)
qed

lemma replaceGlyphs_space: "replaceGlyphs [32] = [32]" "replaceGlyphs [] = []"
  by (simp_all add: replaceGlyphs_def replaceClass_def)

lemma replaceGlyphs_join:
  "replaceGlyphs (join ws [32]) = join (map replaceGlyphs ws) [32]"
  by (induction ws "[32::nat]" rule: join.induct)
    (simp_all add: replaceGlyphs_concat asciiGlyph_def)

lemma last_dropWhile: "dropWhile P xs \<noteq> [] \<Longrightarrow> last (dropWhile P xs) = last xs"
  by (induction xs) (auto split: if_splits)

lemma wordsOf_Nil: "wordsOf s = [] \<longleftrightarrow> (\<forall>x\<in>set s. isWhitespace x)"
proof (induction s rule: wordsOf.induct)
  case 1
  then show ?case by simp
next
  case (2 c cs)
  show ?case
  proof (cases "isWhitespace c")
    case True
    have "(\<forall>x\<in>set (dropWhile isWhitespace cs). isWhitespace x) \<longleftrightarrow> dropWhile isWhitespace cs = []"
    proof
      assume a: "\<forall>x\<in>set (dropWhile isWhitespace cs). isWhitespace x"
      show "dropWhile isWhitespace cs = []"
      proof (rule ccontr)
        assume ne: "dropWhile isWhitespace cs \<noteq> []"
        then have "\<not> isWhitespace (hd (dropWhile isWhitespace cs))" by (rule dropWhile_hd)
        moreover from ne have "hd (dropWhile isWhitespace cs) \<in> set (dropWhile isWhitespace cs)"
          by simp
        ultimately show False using a by blast
      qed
    next
      assume "dropWhile isWhitespace cs = []"
      then show "\<forall>x\<in>set (dropWhile isWhitespace cs). isWhitespace x"
        by (auto dest: set_dropWhileD)
    qed
    also have "\<dots> \<longleftrightarrow> (\<forall>x\<in>set cs. isWhitespace x)" by (rule dropWhile_eq_Nil_conv)
    finally show ?thesis using True 2 by simp
  next
    case False
    then show ?thesis by auto
  qed
qed

lemma wordsOf_words: "w \<in> set (wordsOf s) \<Longrightarrow> w \<noteq> [] \<and> (\<forall>x\<in>set w. \<not> isWhitespace x)"
proof (induction s rule: wordsOf.induct)
  case 1
  then show ?case by simp
next
  case (2 c cs)
  show ?case
  proof (cases "isWhitespace c")
    case True
    with 2 show ?thesis by simp
  next
    case False
    with 2(3) have "w = c # takeWhile (\<lambda>d. \<not> isWhitespace d) cs
        \<or> w \<in> set (wordsOf (dropWhile (\<lambda>d. \<not> isWhitespace d) cs))"
      by simp
    then show ?thesis
    proof
      assume w: "w = c # takeWhile (\<lambda>d. \<not> isWhitespace d) cs"
      have "\<forall>x\<in>set (takeWhile (\<lambda>d. \<not> isWhitespace d) cs). \<not> isWhitespace x"
        by (auto dest: set_takeWhileD)
      with w False show ?thesis by simp
    next
      assume "w \<in> set (wordsOf (dropWhile (\<lambda>d. \<not> isWhitespace d) cs))"
      with 2(2) False show ?thesis by blast
    qed
  qed
qed

lemma replaceWhitespaceRuns_word:
  "\<forall>x\<in>set w. \<not> isWhitespace x \<Longrightarrow> replaceWhitespaceRuns (w @ r) = w @ replaceWhitespaceRuns r"
  by (induction w) simp_all

text \<open>
  The whitespace replacement leaves the words of a text, joined by single spaces, with one
  space in front if the text begins with whitespace, and one at the end if it ends with
  whitespace after a word.
\<close>

lemma replaceWhitespaceRuns_words:
  "replaceWhitespaceRuns s =
     (if s \<noteq> [] \<and> isWhitespace (hd s) then [32] else [])
     @ join (wordsOf s) [32]
     @ (if wordsOf s \<noteq> [] \<and> isWhitespace (last s) then [32] else [])"
proof (induction s rule: wordsOf.induct)
  case 1
  then show ?case by simp
next
  case (2 c cs)
  show ?case
  proof (cases "isWhitespace c")
    case True
    define s where "s = dropWhile isWhitespace cs"
    have lead: "\<not> (s \<noteq> [] \<and> isWhitespace (hd s))"
      unfolding s_def using dropWhile_hd [of isWhitespace cs] by blast
    have ih: "replaceWhitespaceRuns s =
       (if s \<noteq> [] \<and> isWhitespace (hd s) then [32] else [])
       @ join (wordsOf s) [32]
       @ (if wordsOf s \<noteq> [] \<and> isWhitespace (last s) then [32] else [])"
      unfolding s_def using 2(1) True by simp
    have run: "replaceWhitespaceRuns (c # cs) = 32 # replaceWhitespaceRuns s"
      unfolding s_def using True by simp
    have words: "wordsOf (c # cs) = wordsOf s"
      unfolding s_def using True by simp
    have "last (c # cs) = last s" if "wordsOf s \<noteq> []"
    proof -
      from that have ne: "s \<noteq> []" by (metis wordsOf.simps(1))
      then have "cs \<noteq> []" unfolding s_def by (metis dropWhile.simps(1))
      moreover from ne have "last s = last cs" unfolding s_def by (rule last_dropWhile)
      ultimately show ?thesis by simp
    qed
    then have trail: "(wordsOf s \<noteq> [] \<and> isWhitespace (last (c # cs)))
        \<longleftrightarrow> (wordsOf s \<noteq> [] \<and> isWhitespace (last s))"
      by auto
    have "replaceWhitespaceRuns (c # cs) =
        [32] @ join (wordsOf s) [32]
        @ (if wordsOf s \<noteq> [] \<and> isWhitespace (last s) then [32] else [])"
      unfolding run ih using lead by simp
    then show ?thesis
      unfolding words trail using True by simp
  next
    case False
    define w where "w = c # takeWhile (\<lambda>d. \<not> isWhitespace d) cs"
    define r where "r = dropWhile (\<lambda>d. \<not> isWhitespace d) cs"
    have cs: "c # cs = w @ r" by (simp add: w_def r_def)
    have w: "\<forall>x\<in>set w. \<not> isWhitespace x" "w \<noteq> []"
      using False by (auto simp add: w_def dest: set_takeWhileD)
    have run: "replaceWhitespaceRuns (c # cs) = w @ replaceWhitespaceRuns r"
      unfolding cs using w(1) by (rule replaceWhitespaceRuns_word)
    have ih: "replaceWhitespaceRuns r =
       (if r \<noteq> [] \<and> isWhitespace (hd r) then [32] else [])
       @ join (wordsOf r) [32]
       @ (if wordsOf r \<noteq> [] \<and> isWhitespace (last r) then [32] else [])"
      unfolding r_def using 2(2) False by simp
    have hd_r: "isWhitespace (hd r)" if "r \<noteq> []"
      using that dropWhile_hd [of "\<lambda>d. \<not> isWhitespace d" cs] unfolding r_def by simp
    have words: "wordsOf (c # cs) = w # wordsOf r"
      using False by (simp add: w_def r_def)
    have lead: "\<not> (c # cs \<noteq> [] \<and> isWhitespace (hd (c # cs)))" using False by simp
    have last_r: "last (c # cs) = last r" if "r \<noteq> []"
      unfolding cs using that by simp
    show ?thesis
    proof (cases "wordsOf r = []")
      case True
      then have allws: "\<forall>x\<in>set r. isWhitespace x" by (simp add: wordsOf_Nil)
      have r: "replaceWhitespaceRuns r = (if r \<noteq> [] then [32] else [])"
        unfolding ih using True hd_r by simp
      have "(r \<noteq> []) = isWhitespace (last (c # cs))"
      proof (cases "r = []")
        case True
        then have "last (c # cs) = last w" unfolding cs by simp
        moreover have "last w \<in> set w" using w(2) by simp
        ultimately have "\<not> isWhitespace (last (c # cs))" using w(1) by simp
        with True show ?thesis by simp
      next
        case ne: False
        then have "last r \<in> set r" by simp
        with allws have "isWhitespace (last r)" by blast
        with ne last_r show ?thesis by simp
      qed
      then have "replaceWhitespaceRuns (c # cs)
          = w @ (if isWhitespace (last (c # cs)) then [32] else [])"
        unfolding run r by simp
      then show ?thesis unfolding words True using False by simp
    next
      case ne: False
      then have rne: "r \<noteq> []" by (metis wordsOf.simps(1))
      obtain v vs where v: "wordsOf r = v # vs" using ne by (cases "wordsOf r") auto
      have "replaceWhitespaceRuns (c # cs)
          = w @ [32] @ join (wordsOf r) [32]
            @ (if isWhitespace (last r) then [32] else [])"
        unfolding run ih using ne rne hd_r by simp
      then show ?thesis unfolding words last_r [OF rne] v using False by simp
    qed
  qed
qed

lemma trim_blank:
  assumes "\<forall>x\<in>set s. isWhitespace x"
  shows "trim s = []"
proof -
  from assms have "dropWhile isWhitespace s = []" by simp
  then show ?thesis by (simp only: trim_def rev.simps dropWhile.simps)
qed

lemma trim_padded:
  assumes "x \<noteq> []" "\<not> isWhitespace (hd x)" "\<not> isWhitespace (last x)"
    and "\<forall>c\<in>set a. isWhitespace c" "\<forall>c\<in>set b. isWhitespace c"
  shows "trim (a @ x @ b) = x"
proof -
  have 1: "dropWhile isWhitespace (a @ x @ b) = x @ b"
    using assms(1,2,4) by (cases x) (simp_all add: dropWhile_append3)
  have "dropWhile isWhitespace (rev b @ rev x) = rev x"
    using assms(1,3,5) by (cases "rev x") (simp_all add: dropWhile_append3 last_rev [symmetric] hd_rev)
  then show ?thesis by (simp add: trim_def 1)
qed

lemma asciiGlyph_nonws:
  "asciiGlyph c \<noteq> []" "\<not> isWhitespace c \<Longrightarrow> \<forall>x\<in>set (asciiGlyph c). \<not> isWhitespace x"
  by (auto simp add: asciiGlyph_def js_def isWhitespace_def)

lemma replaceGlyphs_word:
  assumes "w \<noteq> []" "\<forall>x\<in>set w. \<not> isWhitespace x"
  shows "replaceGlyphs w \<noteq> [] \<and> (\<forall>x\<in>set (replaceGlyphs w). \<not> isWhitespace x)"
  using assms asciiGlyph_nonws by (cases w) (auto simp add: replaceGlyphs_concat)

lemma join_ends:
  assumes "ws \<noteq> []" "\<forall>w\<in>set ws. w \<noteq> [] \<and> (\<forall>x\<in>set w. \<not> isWhitespace x)"
  shows "join ws [32] \<noteq> [] \<and> \<not> isWhitespace (hd (join ws [32]))
         \<and> \<not> isWhitespace (last (join ws [32]))"
  using assms
proof (induction ws "[32::nat]" rule: join.induct)
  case 1
  then show ?case by simp
next
  case (2 x)
  then show ?case by (cases x) auto
next
  case (3 x y ys)
  then have "join (y # ys) [32] \<noteq> [] \<and> \<not> isWhitespace (last (join (y # ys) [32]))" by simp
  moreover from "3.prems" have "x \<noteq> [] \<and> \<not> isWhitespace (hd x)" by (cases x) auto
  ultimately show ?case by (cases x) auto
qed

text \<open>
  What the replacements and \<open>trim\<close> make of a text: its words with the glyphs replaced,
  joined by single spaces.
\<close>

lemma canonical_words:
  "trim (replaceGlyphs (replaceWhitespaceRuns s)) = join (map replaceGlyphs (wordsOf s)) [32]"
proof (cases "wordsOf s = []")
  case True
  then have "replaceWhitespaceRuns s = (if s \<noteq> [] \<and> isWhitespace (hd s) then [32] else [])"
    using replaceWhitespaceRuns_words [of s] by simp
  then have "replaceGlyphs (replaceWhitespaceRuns s) = [] \<or> replaceGlyphs (replaceWhitespaceRuns s) = [32]"
    by (simp add: replaceGlyphs_space)
  then have "trim (replaceGlyphs (replaceWhitespaceRuns s)) = []"
    by (auto simp add: trim_def isWhitespace_def)
  with True show ?thesis by simp
next
  case False
  let ?a = "if s \<noteq> [] \<and> isWhitespace (hd s) then [32] else []"
  let ?b = "if wordsOf s \<noteq> [] \<and> isWhitespace (last s) then [32] else []"
  let ?x = "join (map replaceGlyphs (wordsOf s)) [32]"
  have "replaceGlyphs (replaceWhitespaceRuns s)
      = replaceGlyphs (?a @ join (wordsOf s) [32] @ ?b)"
    using replaceWhitespaceRuns_words [of s] by simp
  also have "\<dots> = ?a @ ?x @ ?b"
    by (simp add: replaceGlyphs_append replaceGlyphs_join replaceGlyphs_space)
  finally have 1: "replaceGlyphs (replaceWhitespaceRuns s) = ?a @ ?x @ ?b" .
  have "\<forall>w\<in>set (map replaceGlyphs (wordsOf s)). w \<noteq> [] \<and> (\<forall>x\<in>set w. \<not> isWhitespace x)"
    using wordsOf_words [of _ s] replaceGlyphs_word by auto
  with False have x: "?x \<noteq> [] \<and> \<not> isWhitespace (hd ?x) \<and> \<not> isWhitespace (last ?x)"
    by (intro join_ends) simp_all
  have "trim (?a @ ?x @ ?b) = ?x"
    using x by (intro trim_padded) (simp_all add: isWhitespace_def)
  with 1 show ?thesis by simp
qed

lemma normalizeText_spec: "normalizeText t = normalize_spec t"
proof -
  have g: "replaceGlyphs = (\<lambda>w. concat (map asciiGlyph w))"
    by (rule ext) (rule replaceGlyphs_concat)
  have "normalizeText t = join (map replaceGlyphs (wordsOf (toLowerCase t))) [32]"
    by (simp only: normalizeText_replaceGlyphs canonical_words)
  then show ?thesis by (simp add: normalize_spec_def js_def g)
qed

lemma toLowerCase_ascii:
  "\<forall>c\<in>set t. c < 128 \<Longrightarrow>
     toLowerCase t = map (\<lambda>c. if 65 \<le> c \<and> c \<le> 90 then c + 32 else c) t"
  by (auto simp add: toLowerCase_def toLowerUnit_def)


text \<open>
  C9 (amended): \<open>normalizeText\<close> maps \<open>"  HELLO   World  "\<close> to \<open>"hello world"\<close>. Its
  result is the lower-cased text with every run of whitespace collapsed to a single space,
  trimmed, and with the glyphs replaced: the left and right single quotation marks, the
  grave and the acute accent by the ASCII apostrophe, the left and right double quotation
  marks by the ASCII double quote, the en dash by the ASCII hyphen and the horizontal
  ellipsis by three periods; that is, the words of the lower-cased text with the glyphs
  replaced, joined by single spaces. Lower-casing maps the ASCII capitals to the small
  letters and leaves the rest of ASCII as it is. The result has no ASCII capital letter,
  no two adjacent whitespace characters, no whitespace other than the space, and no
  whitespace at either end. In a context of Latin characters and punctuation, a text with
  one of the glyphs has the same result as the text with the ASCII replacement in its
  place.
\<close>

theorem normalizeText_canonical:
  "normalizeText (js ''  HELLO   World  '') = js ''hello world''
   \<and> normalizeText t = normalize_spec t
   \<and> ((\<forall>c\<in>set t. c < 128) \<longrightarrow>
        toLowerCase t = map (\<lambda>c. if 65 \<le> c \<and> c \<le> 90 then c + 32 else c) t)
   \<and> (\<forall>c\<in>set (normalizeText t). \<not> (65 \<le> c \<and> c \<le> 90))
   \<and> singleSpaced (normalizeText t)
   \<and> (\<forall>c\<in>set (normalizeText t). isWhitespace c \<longrightarrow> c = 32)
   \<and> (normalizeText t \<noteq> [] \<longrightarrow>
        \<not> isWhitespace (hd (normalizeText t)) \<and> \<not> isWhitespace (last (normalizeText t)))
   \<and> ((\<forall>c\<in>set (xs @ ys). latinUnit c) \<longrightarrow>
        (\<forall>q\<in>{0x2018, 0x2019, 0x60, 0xB4}.
           normalizeText (xs @ [q] @ ys) = normalizeText (xs @ [0x27] @ ys))
        \<and> (\<forall>q\<in>{0x201C, 0x201D}.
             normalizeText (xs @ [q] @ ys) = normalizeText (xs @ [0x22] @ ys))
        \<and> normalizeText (xs @ [0x2013] @ ys) = normalizeText (xs @ [0x2D] @ ys)
        \<and> normalizeText (xs @ [0x2026] @ ys) = normalizeText (xs @ js ''...'' @ ys))"
  using normalizeText_example normalizeText_spec [of t] toLowerCase_ascii [of t]
    normalizeText_no_capitals [of _ t] normalizeText_whitespace [where t = t]
    normalizeText_single_quotes [of _ xs ys] normalizeText_double_quotes [of _ xs ys]
    normalizeText_en_dash [of xs ys] normalizeText_ellipsis [of xs ys]
  by blast

theorem normalizeText_canonical_witness:
  "normalizeText (js '' Stone'' @ [0x2019] @ js ''s  THROW '')
     = normalize_spec (js '' Stone'' @ [0x2019] @ js ''s  THROW '')
   \<and> normalize_spec (js '' Stone'' @ [0x2019] @ js ''s  THROW '')
     = js ''stone'' @ [0x27] @ js ''s throw''
   \<and> toLowerCase (js ''HELLO World'') = js ''hello world''
   \<and> normalizeText (js ''Stone'' @ [0x2019] @ js ''s'') = normalizeText (js ''Stone'' @ [0x27] @ js ''s'')
   \<and> normalizeText (js ''Stone'' @ [0x27] @ js ''s'') = js ''stone'' @ [0x27] @ js ''s''
   \<and> normalizeText (js ''Kentucky'' @ [0x2013] @ js ''style'') = js ''kentucky-style''
   \<and> normalizeText ([0x201C] @ js ''Hello'' @ [0x201D]) = js ''\"hello\"''
   \<and> normalizeText (js ''Wait'' @ [0x2026]) = js ''wait...''
   \<and> singleSpaced (normalizeText (js ''  HELLO   World  ''))
   \<and> normalizeText (js ''  HELLO   World  '') \<noteq> []
   \<and> \<not> isWhitespace (hd (normalizeText (js ''  HELLO   World  '')))
   \<and> \<not> isWhitespace (last (normalizeText (js ''  HELLO   World  '')))"
proof -
  have a: "normalizeText (js ''Stone'' @ [0x27] @ js ''s'') = js ''stone'' @ [0x27] @ js ''s''"
    by code_simp
  have b: "normalizeText (js ''Kentucky'' @ [0x2D] @ js ''style'') = js ''kentucky-style''"
    by code_simp
  have c: "normalizeText ([0x22] @ js ''Hello'' @ [0x22]) = js ''\"hello\"''"
    by code_simp
  have d: "normalizeText (js ''Wait'' @ js ''...'' @ []) = js ''wait...''"
    by code_simp
  have s: "normalize_spec (js '' Stone'' @ [0x2019] @ js ''s  THROW '')
             = js ''stone'' @ [0x27] @ js ''s throw''"
    by code_simp
  have l: "map (\<lambda>c. if 65 \<le> c \<and> c \<le> 90 then c + 32 else c) (js ''HELLO World'')
             = js ''hello world''"
    by code_simp
  have q: "(0x2019::nat) \<in> {0x2018, 0x2019, 0x60, 0xB4}" "(0x201C::nat) \<in> {0x201C, 0x201D}"
    "(0x201D::nat) \<in> {0x201C, 0x201D}"
    by simp_all
  have r: "\<forall>c\<in>set (js ''HELLO World''). c < 128"
    "\<forall>c\<in>set (js ''Stone'' @ js ''s''). latinUnit c"
    "\<forall>c\<in>set (js ''Kentucky'' @ js ''style''). latinUnit c"
    "\<forall>c\<in>set ([] @ js ''Hello'' @ [0x201D]). latinUnit c"
    "\<forall>c\<in>set (([0x22] @ js ''Hello'') @ []). latinUnit c"
    "\<forall>c\<in>set (js ''Wait'' @ []). latinUnit c"
    by (simp_all add: js_def latinUnit_def)
  from normalizeText_canonical [of "js '' Stone'' @ [0x2019] @ js ''s  THROW ''" "[]" "[]"]
  have 0: "normalizeText (js '' Stone'' @ [0x2019] @ js ''s  THROW '')
             = normalize_spec (js '' Stone'' @ [0x2019] @ js ''s  THROW '')"
    by blast
  from normalizeText_canonical [of "js ''HELLO World''" "[]" "[]"] r(1) l
  have 5: "toLowerCase (js ''HELLO World'') = js ''hello world''"
    by simp
  from normalizeText_canonical [of "js ''  HELLO   World  ''" "js ''Stone''" "js ''s''"] q r(2)
  have 1: "normalizeText (js ''Stone'' @ [0x2019] @ js ''s'')
             = normalizeText (js ''Stone'' @ [0x27] @ js ''s'')"
    and 2: "singleSpaced (normalizeText (js ''  HELLO   World  ''))"
    by blast+
  have n: "js ''hello world'' \<noteq> []" by (simp add: js_def)
  from normalizeText_canonical [of "js ''  HELLO   World  ''" "[]" "[]"] n
  have 7: "normalizeText (js ''  HELLO   World  '') \<noteq> []
      \<and> \<not> isWhitespace (hd (normalizeText (js ''  HELLO   World  '')))
      \<and> \<not> isWhitespace (last (normalizeText (js ''  HELLO   World  '')))"
    by metis
  from normalizeText_canonical [of "[]" "js ''Kentucky''" "js ''style''"] b r(3)
  have 3: "normalizeText (js ''Kentucky'' @ [0x2013] @ js ''style'') = js ''kentucky-style''"
    by simp
  from normalizeText_canonical [of "[]" "js ''Wait''" "[]"] d r(6)
  have 6: "normalizeText (js ''Wait'' @ [0x2026]) = js ''wait...''"
    by simp
  from normalizeText_canonical [of "[]" "[]" "js ''Hello'' @ [0x201D]"] q r(4)
  have "normalizeText ([] @ [0x201C] @ js ''Hello'' @ [0x201D])
          = normalizeText ([] @ [0x22] @ js ''Hello'' @ [0x201D])"
    by blast
  moreover from normalizeText_canonical [of "[]" "[0x22] @ js ''Hello''" "[]"] q r(5)
  have "normalizeText (([0x22] @ js ''Hello'') @ [0x201D] @ [])
          = normalizeText (([0x22] @ js ''Hello'') @ [0x22] @ [])"
    by blast
  ultimately have 4: "normalizeText ([0x201C] @ js ''Hello'' @ [0x201D]) = js ''\"hello\"''"
    using c by simp
  from 0 s 1 2 3 4 5 6 7 a show ?thesis by simp
qed

text \<open>The em dash is none of the replaced glyphs.\<close>

theorem normalizeText_em_dash_counterexample:
  "normalizeText [0x2014] = [0x2014] \<and> normalizeText [0x2014] \<noteq> js ''-''"
  by code_simp

subsection \<open>String similarity\<close>

text \<open>
  The matrix filled by the loops of \<open>stringSimilarity\<close> holds the edit distances; every
  write of the loops is inside the array or at its end.
\<close>

lemma editDistance_sym: "editDistance s1 s2 i j = editDistance s2 s1 j i"
proof (induction s1 s2 i j rule: editDistance.induct)
  case (1 s1 s2 j)
  then show ?case by (cases j) simp_all
next
  case (2 s1 s2 i)
  then show ?case by simp
next
  case (3 s1 s2 i j)
  then show ?case by (simp add: min.left_commute eq_commute)
qed

lemma init_rows: "fold (\<lambda>i matrix. setIndex matrix i [i]) [0..<n] [] = map (\<lambda>i. [i]) [0..<n]"
  by (induction n) (simp_all add: setIndex_def)

lemma init_first_row:
  assumes "matrix \<noteq> []" "matrix ! 0 = [0]"
  shows "fold (\<lambda>j matrix. setIndex matrix 0 (setIndex (matrix ! 0) j j)) [0..<Suc k] matrix
         = matrix[0 := [0..<Suc k]]"
proof (induction k)
  case 0
  from assms show ?case by (simp add: setIndex_def list_update_same_conv)
next
  case (Suc k)
  have "[0..<Suc (Suc k)] = [0..<Suc k] @ [Suc k]" by simp
  then show ?case using assms Suc
    by (simp add: setIndex_def del: upt_Suc) 
qed

lemma matrixInv_init:
  "matrixInv s1 s2 0 (length s2)
     (fold (\<lambda>j matrix. setIndex matrix 0 (setIndex (matrix ! 0) j j)) [0..<Suc (length s2)]
        (fold (\<lambda>i matrix. setIndex matrix i [i]) [0..<Suc (length s1)] []))"
proof -
  have m0: "fold (\<lambda>i matrix. setIndex matrix i [i]) [0..<Suc (length s1)] [] = map (\<lambda>i. [i]) [0..<Suc (length s1)]"
    by (rule init_rows)
  have ne: "map (\<lambda>i. [i]) [0..<Suc (length s1)] \<noteq> []" by simp
  have z: "map (\<lambda>i. [i]) [0..<Suc (length s1)] ! 0 = [0]"
    by (simp add: upt_conv_Cons del: upt_Suc)
  have row0: "map (editDistance s1 s2 0) [0..<Suc (length s2)] = [0..<Suc (length s2)]"
    by (rule nth_equalityI) (simp_all del: upt_Suc)
  show ?thesis
    unfolding m0 init_first_row [OF ne z]
    by (auto simp add: matrixInv_def row0 nth_list_update simp del: upt_Suc)
qed

lemma matrixInv_cell:
  assumes "matrixInv s1 s2 (Suc i) k matrix" "Suc i \<le> length s1" "k < length s2"
  shows "matrixInv s1 s2 (Suc i) (Suc k) (levenshteinCell s1 s2 (Suc i) (Suc k) matrix)"
proof -
  from assms have len: "length matrix = Suc (length s1)"
    and prev: "matrix ! i = map (editDistance s1 s2 i) [0..<Suc (length s2)]"
    and cur: "matrix ! Suc i = map (editDistance s1 s2 (Suc i)) [0..<Suc k]"
    by (simp_all add: matrixInv_def)
  have a: "matrix ! i ! Suc k = editDistance s1 s2 i (Suc k)"
    using assms(3) by (simp add: prev del: upt_Suc)
  have b: "matrix ! i ! k = editDistance s1 s2 i k"
    using assms(3) by (simp add: prev del: upt_Suc)
  have c: "matrix ! Suc i ! k = editDistance s1 s2 (Suc i) k"
    by (simp add: cur del: upt_Suc)
  have lr: "length (matrix ! Suc i) = Suc k" by (simp add: cur)
  have cell: "levenshteinCell s1 s2 (Suc i) (Suc k) matrix
      = matrix[Suc i := map (editDistance s1 s2 (Suc i)) [0..<Suc (Suc k)]]"
    using assms(2) len
    by (simp add: levenshteinCell_def setIndex_def lr a b c Let_def) (simp add: cur)
  show ?thesis
    using assms(1,2) unfolding cell
    by (auto simp add: matrixInv_def nth_list_update simp del: upt_Suc)
qed

lemma matrixInv_row:
  assumes "matrixInv s1 s2 (Suc i) 0 matrix" "Suc i \<le> length s1" "k \<le> length s2"
  shows "matrixInv s1 s2 (Suc i) k (fold (levenshteinCell s1 s2 (Suc i)) [1..<Suc k] matrix)"
  using assms(3)
proof (induction k)
  case 0
  with assms(1) show ?case by simp
next
  case (Suc k)
  then have "matrixInv s1 s2 (Suc i) k (fold (levenshteinCell s1 s2 (Suc i)) [1..<Suc k] matrix)"
    by simp
  from matrixInv_cell [OF this assms(2)] Suc.prems show ?case by simp
qed

lemma matrixInv_next:
  assumes "matrixInv s1 s2 i (length s2) matrix" "Suc i \<le> length s1"
  shows "matrixInv s1 s2 (Suc i) 0 matrix"
  using assms by (auto simp add: matrixInv_def less_Suc_eq)

lemma matrixInv_rows:
  assumes "matrixInv s1 s2 0 (length s2) matrix" "i \<le> length s1"
  shows "matrixInv s1 s2 i (length s2)
           (fold (\<lambda>i matrix. fold (levenshteinCell s1 s2 i) [1..<Suc (length s2)] matrix)
              [1..<Suc i] matrix)"
  using assms(2)
proof (induction i)
  case 0
  with assms(1) show ?case by simp
next
  case (Suc i)
  then have "matrixInv s1 s2 i (length s2)
           (fold (\<lambda>i matrix. fold (levenshteinCell s1 s2 i) [1..<Suc (length s2)] matrix)
              [1..<Suc i] matrix)" by simp
  from matrixInv_row [OF matrixInv_next [OF this Suc.prems] Suc.prems order_refl]
  show ?case by simp
qed

lemma levenshteinMatrix_cell:
  "levenshteinMatrix s1 s2 ! length s1 ! length s2 = editDistance s1 s2 (length s1) (length s2)"
proof -
  have "matrixInv s1 s2 (length s1) (length s2) (levenshteinMatrix s1 s2)"
    unfolding levenshteinMatrix_def Let_def
    by (rule matrixInv_rows [OF matrixInv_init order_refl])
  then show ?thesis by (simp add: matrixInv_def del: upt_Suc)
qed

lemma stringSimilarity_sym: "stringSimilarity a b = stringSimilarity b a"
proof (cases "normalizeText a = normalizeText b")
  case True
  then show ?thesis by (simp add: stringSimilarity_def)
next
  case False
  then have ne: "normalizeText b \<noteq> normalizeText a" by simp
  show ?thesis
    using False ne
    by (simp add: stringSimilarity_def Let_def levenshteinMatrix_cell max.commute disj_commute
        editDistance_sym [of "normalizeText a" "normalizeText b"])
qed


lemma stringSimilarity_refl: "stringSimilarity x x = 1"
  by (simp add: stringSimilarity_def)

lemma normalizeText_Nil: "normalizeText [] = []"
  by (simp add: normalizeText_def toLowerCase_def replaceClass_def trim_def)

lemma hamming_snoc:
  assumes "length xs = length ys"
  shows "hamming (xs @ [x]) (ys @ [y]) = hamming xs ys + (if x = y then 0 else 1)"
  using assms by (simp add: hamming_def)

lemma editDistance_diagonal:
  "i \<le> length s1 \<Longrightarrow> i \<le> length s2 \<Longrightarrow>
     editDistance s1 s2 i i \<le> hamming (take i s1) (take i s2)"
proof (induction i)
  case 0
  then show ?case by simp
next
  case (Suc i)
  then have ih: "editDistance s1 s2 i i \<le> hamming (take i s1) (take i s2)" by simp
  from Suc.prems have "hamming (take (Suc i) s1) (take (Suc i) s2)
      = hamming (take i s1) (take i s2) + (if s1 ! i = s2 ! i then 0 else 1)"
    by (simp add: take_Suc_conv_app_nth hamming_snoc)
  moreover have "editDistance s1 s2 (Suc i) (Suc i)
      \<le> editDistance s1 s2 i i + (if s1 ! i = s2 ! i then 0 else 1)"
    by simp
  ultimately show ?case using ih by linarith
qed

lemma stringSimilarity_lower:
  assumes "normalizeText a = s1" "normalizeText b = s2" "length s1 = length s2" "s1 \<noteq> []"
  shows "1 - real (hamming s1 s2) / real (length s1) \<le> stringSimilarity a b"
proof (cases "s1 = s2")
  case True
  with assms show ?thesis by (simp add: stringSimilarity_def)
next
  case False
  have sim: "stringSimilarity a b =
      (if s1 = s2 then 1
       else if length s1 = 0 \<or> length s2 = 0 then 0
       else 1 - real (editDistance s1 s2 (length s1) (length s2))
                / real (max (length s1) (length s2)))"
    by (simp add: stringSimilarity_def Let_def assms(1,2) levenshteinMatrix_cell)
  have "editDistance s1 s2 (length s1) (length s2) \<le> hamming s1 s2"
    using editDistance_diagonal [of "length s1" s1 s2] assms(3) by simp
  then have "real (editDistance s1 s2 (length s1) (length s2)) / real (length s1)
      \<le> real (hamming s1 s2) / real (length s1)"
    by (simp add: divide_right_mono)
  moreover from assms(3) have "max (length s1) (length s2) = length s1" by simp
  moreover from assms(3,4) have "\<not> (length s1 = 0 \<or> length s2 = 0)"
    by (metis length_0_conv)
  ultimately show ?thesis using False unfolding sim by simp
qed

text \<open>
  C8 (amended): \<open>stringSimilarity x x = 1\<close> for every string \<open>x\<close>;
  \<open>stringSimilarity x "" = 0\<close> for every string \<open>x\<close> whose normalized form is not empty;
  and \<open>stringSimilarity\<close> is symmetric.
\<close>

theorem stringSimilarity_properties:
  "stringSimilarity x x = 1
   \<and> (normalizeText x \<noteq> [] \<longrightarrow> stringSimilarity x [] = 0)
   \<and> stringSimilarity a b = stringSimilarity b a"
  using stringSimilarity_sym [of a b]
  by (simp add: stringSimilarity_refl) (simp add: stringSimilarity_def normalizeText_Nil)

theorem stringSimilarity_properties_witness:
  "normalizeText (js ''hello'') \<noteq> []
   \<and> stringSimilarity (js ''hello'') (js ''hello'') = 1
   \<and> stringSimilarity (js ''hello'') [] = 0
   \<and> stringSimilarity (js ''apple'') (js ''banana'') = stringSimilarity (js ''banana'') (js ''apple'')"
proof -
  have "normalizeText (js ''hello'') \<noteq> []" by code_simp
  with stringSimilarity_properties [of "js ''hello''" "js ''apple''" "js ''banana''"]
  show ?thesis by simp
qed

theorem stringSimilarity_blank_counterexample:
  "js '' '' \<noteq> [] \<and> stringSimilarity (js '' '') [] = 1 \<and> stringSimilarity (js '' '') [] \<noteq> 0"
  by code_simp

subsection \<open>Semantic similarity\<close>

lemma ex_from_one:
  "(\<exists>k\<in>{1..Suc n}. P k) \<longleftrightarrow> P 1 \<or> (\<exists>k\<in>{1..n}. P (Suc k))"
proof
  assume "\<exists>k\<in>{1..Suc n}. P k"
  then obtain k where k: "1 \<le> k" "k \<le> Suc n" "P k" by auto
  show "P 1 \<or> (\<exists>k\<in>{1..n}. P (Suc k))"
  proof (cases "k = 1")
    case True
    with k show ?thesis by simp
  next
    case False
    with k obtain j where "k = Suc j" "1 \<le> j" "j \<le> n" by (cases k) auto
    with k show ?thesis by auto
  qed
next
  assume "P 1 \<or> (\<exists>k\<in>{1..n}. P (Suc k))"
  then show "\<exists>k\<in>{1..Suc n}. P k"
  proof
    assume "P 1"
    then show ?thesis by (intro bexI [of _ 1]) auto
  next
    assume "\<exists>k\<in>{1..n}. P (Suc k)"
    then obtain k where "1 \<le> k" "k \<le> n" "P (Suc k)" by auto
    then show ?thesis by (intro bexI [of _ "Suc k"]) auto
  qed
qed

lemma trySubstitutions_fold:
  "trySubstitutions subs testStr norm2 \<longleftrightarrow>
     (\<exists>k\<in>{1..length subs}. fold applySubstitution (take k subs) testStr = norm2)"
proof (induction subs arbitrary: testStr)
  case Nil
  then show ?case by simp
next
  case (Cons sub subs)
  have "(\<exists>k\<in>{1..length (sub # subs)}. fold applySubstitution (take k (sub # subs)) testStr = norm2)
        \<longleftrightarrow> applySubstitution sub testStr = norm2
            \<or> (\<exists>k\<in>{1..length subs}.
                  fold applySubstitution (take k subs) (applySubstitution sub testStr) = norm2)"
    using ex_from_one [of "length subs"
        "\<lambda>k. fold applySubstitution (take k (sub # subs)) testStr = norm2"]
    by simp
  moreover have "trySubstitutions (sub # subs) testStr norm2
        \<longleftrightarrow> applySubstitution sub testStr = norm2
            \<or> trySubstitutions subs (applySubstitution sub testStr) norm2"
    by (simp add: Let_def applySubstitution_def)
  ultimately show ?case using Cons.IH by simp
qed

text \<open>
  What the loop computes: \<open>areSemanticallySimilar\<close> holds exactly when the two normalized
  strings are equal, or the second one equals the first after the first \<open>k\<close> entries of
  the table have been applied one after the other, for some \<open>k\<close>. Every entry acts on the
  result of the entries before it; so the entry \<open>1 \<rightarrow> I\<close> never changes anything, as the
  entry \<open>1 \<rightarrow> l\<close> before it leaves no \<open>1\<close>.
\<close>

lemma areSemanticallySimilar_cumulative:
  "areSemanticallySimilar str1 str2 \<longleftrightarrow>
     normalizeForOcrErrors str1 = normalizeForOcrErrors str2
     \<or> (\<exists>k\<in>{1..length characterSubstitutions}.
           fold applySubstitution (take k characterSubstitutions) (normalizeForOcrErrors str1)
             = normalizeForOcrErrors str2)"
  by (simp add: areSemanticallySimilar_def Let_def trySubstitutions_fold)

lemma one_to_l_leaves_no_one: "49 \<notin> set (applySubstitution (js ''1'', js ''l'') s)"
  by (induction s) (simp_all add: applySubstitution_def js_def toLowerCase_def toLowerUnit_def
      canonicalize_def)

lemma replaceAllCI_absent:
  "\<forall>c\<in>set s. canonicalize c \<noteq> canonicalize p \<Longrightarrow> replaceAllCI [p] r s = s"
  by (induction s) simp_all

lemma one_to_I_is_dead:
  "applySubstitution (js ''1'', js ''I'') (applySubstitution (js ''1'', js ''l'') s)
     = applySubstitution (js ''1'', js ''l'') s"
proof -
  have u: "applySubstitution (js ''1'', js ''I'') t
      = replaceAllCI [49] (toLowerCase (js ''I'')) t" for t
    by (simp add: applySubstitution_def js_def)
  have "\<forall>c\<in>set (applySubstitution (js ''1'', js ''l'') s). canonicalize c \<noteq> canonicalize 49"
    using one_to_l_leaves_no_one [of s]
    by (auto simp add: canonicalize_def split: if_splits)
  then have r: "replaceAllCI [49] (toLowerCase (js ''I'')) (applySubstitution (js ''1'', js ''l'') s)
      = applySubstitution (js ''1'', js ''l'') s"
    by (rule replaceAllCI_absent)
  show ?thesis unfolding u by (rule r)
qed

text \<open>
  C3: \<open>"5TONE"\<close> against \<open>"STONE"\<close>. The entry \<open>5 \<rightarrow> S\<close> applied to the first normalized
  string gives the second one, so applying every entry to the first string independently
  finds the match. The loop of \<open>areSemanticallySimilar\<close> has turned the \<open>o\<close> into \<open>0\<close> by
  the time it reaches that entry, and returns false.
\<close>

theorem areSemanticallySimilar_accumulates:
  "applySubstitution (js ''5'', js ''S'') (normalizeForOcrErrors (js ''5TONE''))
     = normalizeForOcrErrors (js ''STONE'')
   \<and> semanticallyEqual_spec (js ''5TONE'') (js ''STONE'')
   \<and> fold applySubstitution (take 7 characterSubstitutions) (normalizeForOcrErrors (js ''5TONE''))
     = js ''st0ne''
   \<and> \<not> areSemanticallySimilar (js ''5TONE'') (js ''STONE'')"
  by code_simp

subsection \<open>Net contents\<close>

text \<open>
  What \<open>compareNetContents\<close> returns when both sides parse: the two returns of the block
  for equal units, and in every other case, equal units or not, the result of the
  conversion block.
\<close>

lemma compareNetContents_parsed:
  assumes "pValue (parseNetContents a) = Some av" "pValue (parseNetContents l) = Some lv"
    and "appMl = (if pUnit (parseNetContents a) = Some (js ''fl oz'') then av * 29.5735 else av)"
    and "labelMl = (if pUnit (parseNetContents l) = Some (js ''fl oz'') then lv * 29.5735 else lv)"
  shows "(pUnit (parseNetContents a) = pUnit (parseNetContents l) \<and> av = lv \<longrightarrow>
            matches (compareNetContents a l bt) \<and> confidence (compareNetContents a l bt) = 1)
         \<and> (pUnit (parseNetContents a) = pUnit (parseNetContents l) \<and> av \<noteq> lv
              \<and> \<bar>av - lv\<bar> \<le> av * 0.01 \<longrightarrow>
            matches (compareNetContents a l bt) \<and> confidence (compareNetContents a l bt) = 0.95)
         \<and> (\<not> (pUnit (parseNetContents a) = pUnit (parseNetContents l)
                 \<and> (av = lv \<or> \<bar>av - lv\<bar> \<le> av * 0.01)) \<longrightarrow>
            matches (compareNetContents a l bt) = (\<bar>appMl - labelMl\<bar> < 5)
            \<and> confidence (compareNetContents a l bt) = (if \<bar>appMl - labelMl\<bar> < 5 then 0.90 else 0))"
  using assms by (auto simp add: compareNetContents_def Let_def)

text \<open>
  C4: the values \<open>"100 mL"\<close> and \<open>"103 mL"\<close> parse to the same unit and differ by more
  than 1% of the application value; \<open>compareNetContents\<close> falls through to the conversion
  block and reports a match with confidence 0.90.
\<close>

theorem compareNetContents_same_unit_fall_through:
  "parseNetContents (js ''100 mL'')
     = \<lparr>pValue = Some 100, pUnit = Some (js ''ml''), originalUnit = Some (js ''mL'')\<rparr>
   \<and> parseNetContents (js ''103 mL'')
     = \<lparr>pValue = Some 103, pUnit = Some (js ''ml''), originalUnit = Some (js ''mL'')\<rparr>
   \<and> \<bar>100 - 103\<bar> > (100::real) * 0.01
   \<and> compareNetContents (js ''100 mL'') (js ''103 mL'') distilled_spirits
     = \<lparr>matches = True, confidence = 0.90,
        notes_f = Some (NoteText (js ''Matched after unit conversion: 100 mL''
                    @ [0x20, 0x2248, 0x20] @ js ''103 mL''))\<rparr>"
  by code_simp

subsection \<open>Short circuits of \<open>verifyField\<close>\<close>

text \<open>
  C7: for an empty or unset application value \<open>verifyField\<close> returns a match with
  confidence 1.0 and the note that the field is not specified; for a populated application
  value and an absent extracted value it returns a mismatch with confidence 0.0 and the
  note that the field is not found. In both cases the comparison function is not called:
  the result is the same for every comparison function.
\<close>

theorem verifyField_short_circuit:
  "(\<not> truthy appValue \<longrightarrow>
      verifyField name appValue labValue compareFn =
        \<lparr>matches = True, confidence = 1.0,
         notes_f = Some (NoteText (js ''Field not specified in application'')),
         field = name, applicationValue = [], labelValue = labValue\<rparr>)
   \<and> (truthy appValue \<and> \<not> truthy labValue \<longrightarrow>
      verifyField name appValue labValue compareFn =
        \<lparr>matches = False, confidence = 0.0,
         notes_f = Some (NoteText (js ''Field not found on label'')),
         field = name, applicationValue = the appValue, labelValue = None\<rparr>)
   \<and> (\<not> truthy appValue \<or> \<not> truthy labValue \<longrightarrow>
      verifyField name appValue labValue compareFn = verifyField name appValue labValue otherFn)"
  by (simp add: verifyField_def)

theorem verifyField_short_circuit_witness:
  "\<not> truthy (Some []) \<and> \<not> truthy None \<and> truthy (Some (js ''750 mL''))
   \<and> matches (verifyField (js ''Net Contents'') (Some []) (Some (js ''750 mL''))
        (\<lambda>a l. compareNetContents a l beer))
   \<and> confidence (verifyField (js ''Net Contents'') None (Some (js ''750 mL''))
        (\<lambda>a l. compareNetContents a l beer)) = 1
   \<and> \<not> matches (verifyField (js ''Net Contents'') (Some (js ''750 mL'')) None
        (\<lambda>a l. compareNetContents a l beer))
   \<and> confidence (verifyField (js ''Net Contents'') (Some (js ''750 mL'')) None
        (\<lambda>a l. compareNetContents a l beer)) = 0"
proof -
  have t: "\<not> truthy (Some [])" "\<not> truthy None" "truthy (Some (js ''750 mL''))"
    by (simp_all add: truthy_def js_def)
  from t
    verifyField_short_circuit [of "Some []" "js ''Net Contents''" "Some (js ''750 mL'')"
      "\<lambda>a l. compareNetContents a l beer"]
    verifyField_short_circuit [of None "js ''Net Contents''" "Some (js ''750 mL'')"
      "\<lambda>a l. compareNetContents a l beer"]
    verifyField_short_circuit [of "Some (js ''750 mL'')" "js ''Net Contents''" None
      "\<lambda>a l. compareNetContents a l beer"]
  show ?thesis by simp
qed

subsection \<open>Government warning validation\<close>

lemma startsWith_append: "startsWith s p \<Longrightarrow> \<exists>b. s = p @ b"
  by (induction s p rule: startsWith.induct) auto

lemma includes_str_parts: "includes_str s p \<Longrightarrow> \<exists>a b. s = a @ p @ b"
proof (induction s)
  case Nil
  then show ?case by simp
next
  case (Cons c cs)
  from Cons.prems have "startsWith (c # cs) p \<or> includes_str cs p" by simp
  then show ?case
  proof
    assume "startsWith (c # cs) p"
    then obtain b where "c # cs = p @ b" using startsWith_append by blast
    then have "c # cs = [] @ p @ b" by simp
    then show ?thesis by blast
  next
    assume "includes_str cs p"
    with Cons.IH obtain a b where "cs = a @ p @ b" by blast
    then have "c # cs = (c # a) @ p @ b" by simp
    then show ?thesis by blast
  qed
qed

lemma prefix_nonblank:
  assumes "includes_str w (js ''GOVERNMENT WARNING:'')"
  shows "truthy (Some w) \<and> length (trim w) \<noteq> 0"
proof -
  from includes_str_parts [OF assms] obtain a b
    where "w = a @ js ''GOVERNMENT WARNING:'' @ b" by blast
  then have w: "w = a @ 71 # (js ''OVERNMENT WARNING:'' @ b)" by (simp add: js_def)
  have "\<not> isWhitespace 71" by (simp add: isWhitespace_def)
  then have "71 \<in> set (trim w)" unfolding w by (rule trim_keeps)
  then have "trim w \<noteq> []" by auto
  moreover from w have "w \<noteq> []" by simp
  ultimately show ?thesis by (simp add: truthy_def)
qed

lemma validate_basic:
  assumes "includes_str w (js ''GOVERNMENT WARNING:'')"
    and "stringSimilarity (normalizeText w) (normalizeText GOVERNMENT_WARNING_TEXT) \<ge> 0.95"
  shows "validateGovernmentWarning (Some w) =
           \<lparr>present = True, correct = True, warningNotes = None,
            warningIssues =
              (if missingPhrases (normalizeText w) = [] then None
               else Some [missingPhrasesIssue (missingPhrases (normalizeText w))])\<rparr>"
  using assms prefix_nonblank [OF assms(1)]
  by (simp add: validateGovernmentWarning_def Let_def minSimilarity_def)

lemma correct_present:
  "correct (validateGovernmentWarning w) \<Longrightarrow> present (validateGovernmentWarning w)"
  by (simp add: validateGovernmentWarning_def Let_def split: if_splits)

lemma detailsIssues_extends: "\<exists>extra. detailsIssues d i = i @ extra"
  by (simp add: detailsIssues_def Let_def)

lemma detailsIssues_Nil: "detailsIssues d i = [] \<Longrightarrow> i = []"
  using detailsIssues_extends [of d i] by auto

lemma validate_enhanced:
  "correct (validateGovernmentWarningEnhanced e) \<longleftrightarrow>
     correct (validateGovernmentWarning (governmentWarning e))
     \<and> issues (validateGovernmentWarningEnhanced e) = []"
  using correct_present [of "governmentWarning e"]
  by (auto simp add: validateGovernmentWarningEnhanced_def Let_def)

lemma validate_enhanced_issues:
  "present (validateGovernmentWarning (governmentWarning e)) \<Longrightarrow>
   issues (validateGovernmentWarningEnhanced e) =
     (let basicIssues = (case warningIssues (validateGovernmentWarning (governmentWarning e)) of
                           Some i \<Rightarrow> i | None \<Rightarrow> [])
      in case governmentWarningDetails e of
           None \<Rightarrow> basicIssues
         | Some d \<Rightarrow> detailsIssues d basicIssues)"
  by (simp add: validateGovernmentWarningEnhanced_def Let_def)

lemma validate_enhanced_basic_issues:
  assumes "correct (validateGovernmentWarningEnhanced e)"
  shows "warningIssues (validateGovernmentWarning (governmentWarning e)) = None"
proof -
  from assms have c: "correct (validateGovernmentWarning (governmentWarning e))"
    and i: "issues (validateGovernmentWarningEnhanced e) = []"
    using validate_enhanced by blast+
  from c have p: "present (validateGovernmentWarning (governmentWarning e))"
    by (rule correct_present)
  show ?thesis
  proof (cases "warningIssues (validateGovernmentWarning (governmentWarning e))")
    case None
    then show ?thesis .
  next
    case (Some bi)
    from c have "bi \<noteq> []" using Some
      by (auto simp add: validateGovernmentWarning_def Let_def split: if_splits)
    moreover from i validate_enhanced_issues [OF p] Some
    have "bi = []"
      by (cases "governmentWarningDetails e") (auto simp add: Let_def dest: detailsIssues_Nil)
    ultimately show ?thesis by simp
  qed
qed

lemma misreadWarning_similarity:
  "stringSimilarity (normalizeText misreadWarning) (normalizeText GOVERNMENT_WARNING_TEXT) \<ge> 0.95"
proof -
  have 1: "normalizeText misreadWarning = normalizedMisread" by code_simp
  have 2: "normalizeText GOVERNMENT_WARNING_TEXT = normalizedWarning" by code_simp
  have 3: "normalizeText normalizedMisread = normalizedMisread" by code_simp
  have 4: "normalizeText normalizedWarning = normalizedWarning" by code_simp
  have 5: "length normalizedMisread = 283" "length normalizedWarning = 283"
    "hamming normalizedMisread normalizedWarning = 1"
    by code_simp+
  from 5 have 6: "length normalizedMisread = length normalizedWarning" "normalizedMisread \<noteq> []"
    by auto
  from stringSimilarity_lower [OF 3 4 6] 5 show ?thesis by (simp add: 1 2)
qed

lemma misreadWarning_missing:
  "missingPhrases (normalizeText misreadWarning) = [js ''pregnancy'']"
  by code_simp

lemma basic_correct:
  "correct (validateGovernmentWarning wt) \<longleftrightarrow>
     (\<exists>w. wt = Some w \<and> includes_str w (js ''GOVERNMENT WARNING:'')
          \<and> stringSimilarity (normalizeText w) (normalizeText GOVERNMENT_WARNING_TEXT) \<ge> 0.95)"
proof
  assume c: "correct (validateGovernmentWarning wt)"
  then obtain w where w: "wt = Some w"
    by (cases wt) (auto simp add: validateGovernmentWarning_def truthy_def)
  from c have "includes_str w (js ''GOVERNMENT WARNING:'')
      \<and> stringSimilarity (normalizeText w) (normalizeText GOVERNMENT_WARNING_TEXT) \<ge> 0.95"
    unfolding w
    by (simp add: validateGovernmentWarning_def Let_def minSimilarity_def split: if_splits)
  with w show "\<exists>w. wt = Some w \<and> includes_str w (js ''GOVERNMENT WARNING:'')
          \<and> stringSimilarity (normalizeText w) (normalizeText GOVERNMENT_WARNING_TEXT) \<ge> 0.95"
    by blast
next
  assume "\<exists>w. wt = Some w \<and> includes_str w (js ''GOVERNMENT WARNING:'')
          \<and> stringSimilarity (normalizeText w) (normalizeText GOVERNMENT_WARNING_TEXT) \<ge> 0.95"
  then obtain w where "wt = Some w" "includes_str w (js ''GOVERNMENT WARNING:'')"
    "stringSimilarity (normalizeText w) (normalizeText GOVERNMENT_WARNING_TEXT) \<ge> 0.95"
    by blast
  then show "correct (validateGovernmentWarning wt)" by (simp add: validate_basic)
qed

text \<open>
  The issues that the block over the warning details adds to the text issues: one for each
  of the three flags that is set against the label, then the extracted issues that are not
  in the list yet.
\<close>

lemma detailsIssues_closed:
  "detailsIssues d textIssues =
     (let formatIssues =
            (if \<not> prefixInAllCaps d
                  \<and> \<not> list_ex (\<lambda>i. includes_str i (js ''ALL CAPS'')) textIssues
             then [allCapsIssue] else [])
            @ (if appearsBold d = Some False then [boldTypeIssue] else [])
            @ (if \<not> textComplete d then [incompleteIssue] else [])
      in textIssues @ formatIssues
           @ filter (\<lambda>i. i \<notin> set (textIssues @ formatIssues)) (detailIssues d))"
  by (auto simp add: detailsIssues_def Let_def allCapsIssue_def boldTypeIssue_def
      incompleteIssue_def intro!: filter_cong)

lemma detailsIssues_clean:
  "detailsIssues d [] = [] \<longleftrightarrow>
     prefixInAllCaps d \<and> appearsBold d \<noteq> Some False \<and> textComplete d \<and> detailIssues d = []"
  by (auto simp add: detailsIssues_closed Let_def)

lemma enhanced_correct:
  "correct (validateGovernmentWarningEnhanced e) \<longleftrightarrow>
     (\<exists>w. governmentWarning e = Some w \<and> includes_str w (js ''GOVERNMENT WARNING:'')
          \<and> stringSimilarity (normalizeText w) (normalizeText GOVERNMENT_WARNING_TEXT) \<ge> 0.95
          \<and> missingPhrases (normalizeText w) = [])
     \<and> (\<forall>d. governmentWarningDetails e = Some d \<longrightarrow>
            prefixInAllCaps d \<and> appearsBold d \<noteq> Some False \<and> textComplete d
            \<and> detailIssues d = [])"
proof
  assume c: "correct (validateGovernmentWarningEnhanced e)"
  then have b: "correct (validateGovernmentWarning (governmentWarning e))"
    and i: "issues (validateGovernmentWarningEnhanced e) = []"
    using validate_enhanced by blast+
  from b obtain w where w: "governmentWarning e = Some w"
    "includes_str w (js ''GOVERNMENT WARNING:'')"
    "stringSimilarity (normalizeText w) (normalizeText GOVERNMENT_WARNING_TEXT) \<ge> 0.95"
    using basic_correct by blast
  from c have n: "warningIssues (validateGovernmentWarning (governmentWarning e)) = None"
    by (rule validate_enhanced_basic_issues)
  then have m: "missingPhrases (normalizeText w) = []"
    unfolding w(1) validate_basic [OF w(2,3)] by (simp split: if_splits)
  from b have p: "present (validateGovernmentWarning (governmentWarning e))"
    by (rule correct_present)
  have "prefixInAllCaps d \<and> appearsBold d \<noteq> Some False \<and> textComplete d \<and> detailIssues d = []"
    if d: "governmentWarningDetails e = Some d" for d
  proof -
    from validate_enhanced_issues [OF p] i n d have "detailsIssues d [] = []"
      by (simp add: Let_def)
    then show ?thesis using detailsIssues_clean by blast
  qed
  with w m show "(\<exists>w. governmentWarning e = Some w \<and> includes_str w (js ''GOVERNMENT WARNING:'')
          \<and> stringSimilarity (normalizeText w) (normalizeText GOVERNMENT_WARNING_TEXT) \<ge> 0.95
          \<and> missingPhrases (normalizeText w) = [])
     \<and> (\<forall>d. governmentWarningDetails e = Some d \<longrightarrow>
            prefixInAllCaps d \<and> appearsBold d \<noteq> Some False \<and> textComplete d
            \<and> detailIssues d = [])"
    by blast
next
  assume a: "(\<exists>w. governmentWarning e = Some w \<and> includes_str w (js ''GOVERNMENT WARNING:'')
          \<and> stringSimilarity (normalizeText w) (normalizeText GOVERNMENT_WARNING_TEXT) \<ge> 0.95
          \<and> missingPhrases (normalizeText w) = [])
     \<and> (\<forall>d. governmentWarningDetails e = Some d \<longrightarrow>
            prefixInAllCaps d \<and> appearsBold d \<noteq> Some False \<and> textComplete d
            \<and> detailIssues d = [])"
  then obtain w where w: "governmentWarning e = Some w"
    "includes_str w (js ''GOVERNMENT WARNING:'')"
    "stringSimilarity (normalizeText w) (normalizeText GOVERNMENT_WARNING_TEXT) \<ge> 0.95"
    "missingPhrases (normalizeText w) = []"
    by blast
  have v: "validateGovernmentWarning (governmentWarning e) =
      \<lparr>present = True, correct = True, warningNotes = None, warningIssues = None\<rparr>"
    unfolding w(1) validate_basic [OF w(2,3)] using w(4) by simp
  then have p: "present (validateGovernmentWarning (governmentWarning e))" by simp
  have "issues (validateGovernmentWarningEnhanced e) = []"
  proof (cases "governmentWarningDetails e")
    case None
    with validate_enhanced_issues [OF p] v show ?thesis by (simp add: Let_def)
  next
    case (Some d)
    with a have "detailsIssues d [] = []" using detailsIssues_clean by blast
    with validate_enhanced_issues [OF p] v Some show ?thesis by (simp add: Let_def)
  qed
  with v show "correct (validateGovernmentWarningEnhanced e)"
    by (simp add: validate_enhanced)
qed

text \<open>
  C5: when the text contains the exact prefix \<open>GOVERNMENT WARNING:\<close> and the similarity of
  its normalized form to the normalized required text is at least 0.95, the basic
  validator returns \<open>present\<close> and \<open>correct\<close>, with the missing required phrases, if any,
  as its only issue; and it returns \<open>correct\<close> in no other case. The enhanced validator
  returns \<open>correct\<close> exactly when the basic result is correct and its own list of issues is
  empty. For a present warning that list is the text issues of the basic validator,
  followed by one formatting issue for each of: a prefix reported as not in capitals
  (unless a text issue speaks of capitals already), a type reported as not bold, a text
  reported as incomplete; followed by the extracted issues that are not in the list yet.
  So the enhanced validator returns \<open>correct\<close> exactly when the text has the prefix, is
  similar enough and misses no required phrase, and the warning details, if there are any,
  report the prefix in capitals, do not report the type as not bold, report the text as
  complete and carry no issue.
\<close>

theorem validateGovernmentWarning_correct:
  "(includes_str w (js ''GOVERNMENT WARNING:'')
      \<and> stringSimilarity (normalizeText w) (normalizeText GOVERNMENT_WARNING_TEXT) \<ge> 0.95
     \<longrightarrow> validateGovernmentWarning (Some w) =
           \<lparr>present = True, correct = True, warningNotes = None,
            warningIssues =
              (if missingPhrases (normalizeText w) = [] then None
               else Some [missingPhrasesIssue (missingPhrases (normalizeText w))])\<rparr>)
   \<and> (correct (validateGovernmentWarning (Some w)) \<longleftrightarrow>
        includes_str w (js ''GOVERNMENT WARNING:'')
        \<and> stringSimilarity (normalizeText w) (normalizeText GOVERNMENT_WARNING_TEXT) \<ge> 0.95)
   \<and> \<not> correct (validateGovernmentWarning None)
   \<and> (correct (validateGovernmentWarningEnhanced e) \<longleftrightarrow>
        correct (validateGovernmentWarning (governmentWarning e))
        \<and> issues (validateGovernmentWarningEnhanced e) = [])
   \<and> (present (validateGovernmentWarning (governmentWarning e)) \<longrightarrow>
        issues (validateGovernmentWarningEnhanced e) =
          (let textIssues = (case warningIssues (validateGovernmentWarning (governmentWarning e)) of
                               Some i \<Rightarrow> i | None \<Rightarrow> [])
           in case governmentWarningDetails e of
                None \<Rightarrow> textIssues
              | Some d \<Rightarrow>
                  let formatIssues =
                        (if \<not> prefixInAllCaps d
                              \<and> \<not> list_ex (\<lambda>i. includes_str i (js ''ALL CAPS'')) textIssues
                         then [allCapsIssue] else [])
                        @ (if appearsBold d = Some False then [boldTypeIssue] else [])
                        @ (if \<not> textComplete d then [incompleteIssue] else [])
                  in textIssues @ formatIssues
                       @ filter (\<lambda>i. i \<notin> set (textIssues @ formatIssues)) (detailIssues d)))
   \<and> (correct (validateGovernmentWarningEnhanced e) \<longleftrightarrow>
        (\<exists>t. governmentWarning e = Some t \<and> includes_str t (js ''GOVERNMENT WARNING:'')
             \<and> stringSimilarity (normalizeText t) (normalizeText GOVERNMENT_WARNING_TEXT) \<ge> 0.95
             \<and> missingPhrases (normalizeText t) = [])
        \<and> (\<forall>d. governmentWarningDetails e = Some d \<longrightarrow>
               prefixInAllCaps d \<and> appearsBold d \<noteq> Some False \<and> textComplete d
               \<and> detailIssues d = []))
   \<and> (correct (validateGovernmentWarningEnhanced e) \<longrightarrow>
        warningIssues (validateGovernmentWarning (governmentWarning e)) = None)"
proof -
  have 1: "includes_str w (js ''GOVERNMENT WARNING:'')
      \<and> stringSimilarity (normalizeText w) (normalizeText GOVERNMENT_WARNING_TEXT) \<ge> 0.95
     \<longrightarrow> validateGovernmentWarning (Some w) =
           \<lparr>present = True, correct = True, warningNotes = None,
            warningIssues =
              (if missingPhrases (normalizeText w) = [] then None
               else Some [missingPhrasesIssue (missingPhrases (normalizeText w))])\<rparr>"
    using validate_basic [of w] by blast
  have 2: "correct (validateGovernmentWarning (Some w)) \<longleftrightarrow>
        includes_str w (js ''GOVERNMENT WARNING:'')
        \<and> stringSimilarity (normalizeText w) (normalizeText GOVERNMENT_WARNING_TEXT) \<ge> 0.95"
    using basic_correct [of "Some w"] by simp
  have 3: "\<not> correct (validateGovernmentWarning None)"
    using basic_correct [of None] by simp
  have 4: "correct (validateGovernmentWarningEnhanced e) \<longleftrightarrow>
        correct (validateGovernmentWarning (governmentWarning e))
        \<and> issues (validateGovernmentWarningEnhanced e) = []"
    by (rule validate_enhanced)
  have 5: "present (validateGovernmentWarning (governmentWarning e)) \<longrightarrow>
        issues (validateGovernmentWarningEnhanced e) =
          (let textIssues = (case warningIssues (validateGovernmentWarning (governmentWarning e)) of
                               Some i \<Rightarrow> i | None \<Rightarrow> [])
           in case governmentWarningDetails e of
                None \<Rightarrow> textIssues
              | Some d \<Rightarrow>
                  let formatIssues =
                        (if \<not> prefixInAllCaps d
                              \<and> \<not> list_ex (\<lambda>i. includes_str i (js ''ALL CAPS'')) textIssues
                         then [allCapsIssue] else [])
                        @ (if appearsBold d = Some False then [boldTypeIssue] else [])
                        @ (if \<not> textComplete d then [incompleteIssue] else [])
                  in textIssues @ formatIssues
                       @ filter (\<lambda>i. i \<notin> set (textIssues @ formatIssues)) (detailIssues d))"
  proof
    assume p: "present (validateGovernmentWarning (governmentWarning e))"
    show "issues (validateGovernmentWarningEnhanced e) =
          (let textIssues = (case warningIssues (validateGovernmentWarning (governmentWarning e)) of
                               Some i \<Rightarrow> i | None \<Rightarrow> [])
           in case governmentWarningDetails e of
                None \<Rightarrow> textIssues
              | Some d \<Rightarrow>
                  let formatIssues =
                        (if \<not> prefixInAllCaps d
                              \<and> \<not> list_ex (\<lambda>i. includes_str i (js ''ALL CAPS'')) textIssues
                         then [allCapsIssue] else [])
                        @ (if appearsBold d = Some False then [boldTypeIssue] else [])
                        @ (if \<not> textComplete d then [incompleteIssue] else [])
                  in textIssues @ formatIssues
                       @ filter (\<lambda>i. i \<notin> set (textIssues @ formatIssues)) (detailIssues d))"
      using validate_enhanced_issues [OF p] unfolding detailsIssues_closed .
  qed
  have 6: "correct (validateGovernmentWarningEnhanced e) \<longleftrightarrow>
        (\<exists>t. governmentWarning e = Some t \<and> includes_str t (js ''GOVERNMENT WARNING:'')
             \<and> stringSimilarity (normalizeText t) (normalizeText GOVERNMENT_WARNING_TEXT) \<ge> 0.95
             \<and> missingPhrases (normalizeText t) = [])
        \<and> (\<forall>d. governmentWarningDetails e = Some d \<longrightarrow>
               prefixInAllCaps d \<and> appearsBold d \<noteq> Some False \<and> textComplete d
               \<and> detailIssues d = [])"
    by (rule enhanced_correct)
  have 7: "correct (validateGovernmentWarningEnhanced e) \<longrightarrow>
        warningIssues (validateGovernmentWarning (governmentWarning e)) = None"
    using validate_enhanced_basic_issues [of e] by blast
  from 1 2 3 4 5 6 7 show ?thesis by (intro conjI)
qed

theorem validateGovernmentWarning_correct_witness:
  "includes_str misreadWarning (js ''GOVERNMENT WARNING:'')
   \<and> stringSimilarity (normalizeText misreadWarning) (normalizeText GOVERNMENT_WARNING_TEXT) \<ge> 0.95
   \<and> validateGovernmentWarning (Some misreadWarning) =
        \<lparr>present = True, correct = True, warningNotes = None,
         warningIssues = Some [js ''Missing required phrases: pregnancy'']\<rparr>
   \<and> \<not> correct (validateGovernmentWarningEnhanced
                  (emptyLabel\<lparr>governmentWarning := Some misreadWarning\<rparr>))
   \<and> correct (validateGovernmentWarningEnhanced
                (exampleLabel\<lparr>governmentWarningDetails := Some exampleDetails\<rparr>))
   \<and> \<not> correct (validateGovernmentWarningEnhanced
                  (exampleLabel\<lparr>governmentWarningDetails :=
                     Some (exampleDetails\<lparr>appearsBold := Some False\<rparr>)\<rparr>))
   \<and> issues (validateGovernmentWarningEnhanced
               (exampleLabel\<lparr>governmentWarningDetails :=
                  Some (exampleDetails\<lparr>prefixInAllCaps := False, textComplete := False,
                          detailIssues := [js ''Text is partly hidden'']\<rparr>)\<rparr>))
       = [allCapsIssue, incompleteIssue, js ''Text is partly hidden'']"
proof -
  let ?e = "emptyLabel\<lparr>governmentWarning := Some misreadWarning\<rparr>"
  let ?good = "exampleLabel\<lparr>governmentWarningDetails := Some exampleDetails\<rparr>"
  let ?plain = "exampleLabel\<lparr>governmentWarningDetails :=
                  Some (exampleDetails\<lparr>appearsBold := Some False\<rparr>)\<rparr>"
  let ?flawed = "exampleLabel\<lparr>governmentWarningDetails :=
                  Some (exampleDetails\<lparr>prefixInAllCaps := False, textComplete := False,
                          detailIssues := [js ''Text is partly hidden'']\<rparr>)\<rparr>"
  have p: "includes_str misreadWarning (js ''GOVERNMENT WARNING:'')" by code_simp
  have m: "missingPhrasesIssue [js ''pregnancy''] = js ''Missing required phrases: pregnancy''"
    by code_simp
  have g: "governmentWarning ?e = Some misreadWarning" by simp
  from validateGovernmentWarning_correct [of misreadWarning ?e] p misreadWarning_similarity
  have "validateGovernmentWarning (Some misreadWarning) =
          \<lparr>present = True, correct = True, warningNotes = None,
           warningIssues =
             (if missingPhrases (normalizeText misreadWarning) = [] then None
              else Some [missingPhrasesIssue (missingPhrases (normalizeText misreadWarning))])\<rparr>"
    by blast
  then have v: "validateGovernmentWarning (Some misreadWarning) =
        \<lparr>present = True, correct = True, warningNotes = None,
         warningIssues = Some [js ''Missing required phrases: pregnancy'']\<rparr>"
    by (simp add: misreadWarning_missing m)
  from validateGovernmentWarning_correct [of misreadWarning ?e]
  have c: "correct (validateGovernmentWarningEnhanced ?e) \<longrightarrow>
        warningIssues (validateGovernmentWarning (governmentWarning ?e)) = None"
    by blast
  have 1: "\<not> correct (validateGovernmentWarningEnhanced ?e)"
  proof
    assume "correct (validateGovernmentWarningEnhanced ?e)"
    with c have "warningIssues (validateGovernmentWarning (governmentWarning ?e)) = None"
      by blast
    then show False unfolding g v by simp
  qed
  have gw: "governmentWarning ?good = Some GOVERNMENT_WARNING_TEXT"
    "governmentWarning ?plain = Some GOVERNMENT_WARNING_TEXT"
    "governmentWarning ?flawed = Some GOVERNMENT_WARNING_TEXT"
    by (simp_all add: exampleLabel_def emptyLabel_def)
  have gd: "governmentWarningDetails ?good = Some exampleDetails"
    "governmentWarningDetails ?plain = Some (exampleDetails\<lparr>appearsBold := Some False\<rparr>)"
    "governmentWarningDetails ?flawed =
       Some (exampleDetails\<lparr>prefixInAllCaps := False, textComplete := False,
               detailIssues := [js ''Text is partly hidden'']\<rparr>)"
    by simp_all
  have t: "includes_str GOVERNMENT_WARNING_TEXT (js ''GOVERNMENT WARNING:'')" by code_simp
  have sim: "stringSimilarity (normalizeText GOVERNMENT_WARNING_TEXT)
               (normalizeText GOVERNMENT_WARNING_TEXT) \<ge> 0.95"
    by (simp add: stringSimilarity_refl)
  have mp: "missingPhrases (normalizeText GOVERNMENT_WARNING_TEXT) = []" by code_simp
  have d: "prefixInAllCaps exampleDetails \<and> appearsBold exampleDetails \<noteq> Some False
      \<and> textComplete exampleDetails \<and> detailIssues exampleDetails = []"
    by (simp add: exampleDetails_def)
  have text_ok: "\<exists>t. governmentWarning ?good = Some t
      \<and> includes_str t (js ''GOVERNMENT WARNING:'')
      \<and> stringSimilarity (normalizeText t) (normalizeText GOVERNMENT_WARNING_TEXT) \<ge> 0.95
      \<and> missingPhrases (normalizeText t) = []"
    using gw(1) t sim mp by blast
  have details_ok: "\<forall>d. governmentWarningDetails ?good = Some d \<longrightarrow>
      prefixInAllCaps d \<and> appearsBold d \<noteq> Some False \<and> textComplete d \<and> detailIssues d = []"
    unfolding gd(1) using d by blast
  from validateGovernmentWarning_correct [of GOVERNMENT_WARNING_TEXT ?good] text_ok details_ok
  have 2: "correct (validateGovernmentWarningEnhanced ?good)"
    by blast
  have "appearsBold (exampleDetails\<lparr>appearsBold := Some False\<rparr>) = Some False" by simp
  with gd(2) have details_bad: "\<not> (\<forall>d. governmentWarningDetails ?plain = Some d \<longrightarrow>
      prefixInAllCaps d \<and> appearsBold d \<noteq> Some False \<and> textComplete d \<and> detailIssues d = [])"
    by blast
  from validateGovernmentWarning_correct [of GOVERNMENT_WARNING_TEXT ?plain] details_bad
  have 3: "\<not> correct (validateGovernmentWarningEnhanced ?plain)"
    by blast
  from validateGovernmentWarning_correct [of GOVERNMENT_WARNING_TEXT ?flawed] t sim
  have "validateGovernmentWarning (Some GOVERNMENT_WARNING_TEXT) =
        \<lparr>present = True, correct = True, warningNotes = None,
         warningIssues =
           (if missingPhrases (normalizeText GOVERNMENT_WARNING_TEXT) = [] then None
            else Some [missingPhrasesIssue (missingPhrases (normalizeText GOVERNMENT_WARNING_TEXT))])\<rparr>"
    by blast
  then have b: "validateGovernmentWarning (Some GOVERNMENT_WARNING_TEXT) =
        \<lparr>present = True, correct = True, warningNotes = None, warningIssues = None\<rparr>"
    unfolding mp by simp
  then have pr: "present (validateGovernmentWarning (governmentWarning ?flawed))"
    unfolding gw(3) by simp
  have ne: "js ''Text is partly hidden'' \<noteq> allCapsIssue"
    "js ''Text is partly hidden'' \<noteq> incompleteIssue"
    by (simp_all add: allCapsIssue_def incompleteIssue_def js_def)
  from validateGovernmentWarning_correct [of GOVERNMENT_WARNING_TEXT ?flawed] pr
  have "issues (validateGovernmentWarningEnhanced ?flawed) =
          (let textIssues = (case warningIssues (validateGovernmentWarning (governmentWarning ?flawed)) of
                               Some i \<Rightarrow> i | None \<Rightarrow> [])
           in case governmentWarningDetails ?flawed of
                None \<Rightarrow> textIssues
              | Some d \<Rightarrow>
                  let formatIssues =
                        (if \<not> prefixInAllCaps d
                              \<and> \<not> list_ex (\<lambda>i. includes_str i (js ''ALL CAPS'')) textIssues
                         then [allCapsIssue] else [])
                        @ (if appearsBold d = Some False then [boldTypeIssue] else [])
                        @ (if \<not> textComplete d then [incompleteIssue] else [])
                  in textIssues @ formatIssues
                       @ filter (\<lambda>i. i \<notin> set (textIssues @ formatIssues)) (detailIssues d))"
    by blast
  then have 4: "issues (validateGovernmentWarningEnhanced ?flawed)
      = [allCapsIssue, incompleteIssue, js ''Text is partly hidden'']"
    unfolding gw(3) gd(3) b using ne by (simp add: exampleDetails_def)
  from p misreadWarning_similarity v 1 2 3 4 show ?thesis by (intro conjI)
qed

lemma detailsIssues_flags:
  "detailsIssues (d\<lparr>onContrastingBackground := b\<rparr>) i = detailsIssues d i"
  "detailsIssues (d\<lparr>appearsBold := Some True\<rparr>) i = detailsIssues (d\<lparr>appearsBold := None\<rparr>) i"
  by (simp_all add: detailsIssues_def)

lemma enhanced_flags:
  "validateGovernmentWarningEnhanced (e\<lparr>governmentWarningDetails := Some (d\<lparr>onContrastingBackground := b\<rparr>)\<rparr>)
     = validateGovernmentWarningEnhanced (e\<lparr>governmentWarningDetails := Some d\<rparr>)"
  "validateGovernmentWarningEnhanced (e\<lparr>governmentWarningDetails := Some (d\<lparr>appearsBold := Some True\<rparr>)\<rparr>)
     = validateGovernmentWarningEnhanced (e\<lparr>governmentWarningDetails := Some (d\<lparr>appearsBold := None\<rparr>)\<rparr>)"
  by (simp_all add: validateGovernmentWarningEnhanced_def Let_def detailsIssues_flags)

lemma verification_details:
  "brandNameVerification a (e\<lparr>governmentWarningDetails := x\<rparr>) = brandNameVerification a e"
  "classTypeVerification a (e\<lparr>governmentWarningDetails := x\<rparr>) = classTypeVerification a e"
  "alcoholVerification a (e\<lparr>governmentWarningDetails := x\<rparr>) = alcoholVerification a e"
  "netContentsVerification a (e\<lparr>governmentWarningDetails := x\<rparr>) = netContentsVerification a e"
  "producerVerification a (e\<lparr>governmentWarningDetails := x\<rparr>) = producerVerification a e"
  "countryVerification a (e\<lparr>governmentWarningDetails := x\<rparr>) = countryVerification a e"
  "vintageVerification a (e\<lparr>governmentWarningDetails := x\<rparr>) = vintageVerification a e"
  "appellationVerification a (e\<lparr>governmentWarningDetails := x\<rparr>) = appellationVerification a e"
  by (simp_all add: brandNameVerification_def classTypeVerification_def
      alcoholVerification_def netContentsVerification_def producerVerification_def
      countryVerification_def vintageVerification_def appellationVerification_def)

lemma gatherFields_details:
  "gatherFields a (e\<lparr>governmentWarningDetails := x\<rparr>) = gatherFields a e"
  unfolding gatherFields_def verification_details by (rule refl)

lemma verifyLabel_details:
  assumes "validateGovernmentWarningEnhanced (e\<lparr>governmentWarningDetails := x\<rparr>)
           = validateGovernmentWarningEnhanced (e\<lparr>governmentWarningDetails := y\<rparr>)"
  shows "verifyLabel a (e\<lparr>governmentWarningDetails := x\<rparr>) t
         = (verifyLabel a (e\<lparr>governmentWarningDetails := y\<rparr>) t)
             \<lparr>extractedData := e\<lparr>governmentWarningDetails := x\<rparr>\<rparr>"
proof -
  have iq: "imageQuality (e\<lparr>governmentWarningDetails := x\<rparr>)
            = imageQuality (e\<lparr>governmentWarningDetails := y\<rparr>)"
    by simp
  have g: "gather a (e\<lparr>governmentWarningDetails := x\<rparr>)
           = gather a (e\<lparr>governmentWarningDetails := y\<rparr>)"
    unfolding gather_def gatherFields_details assms iq by (rule refl)
  have oc: "computeOverallConfidence g' (e\<lparr>governmentWarningDetails := x\<rparr>)
            = computeOverallConfidence g' (e\<lparr>governmentWarningDetails := y\<rparr>)" for g'
    by (simp add: computeOverallConfidence_def)
  show ?thesis
    unfolding verifyLabel_def g oc iq by (simp add: Let_def split: prod.split)
qed


lemma boldTypeIssue_added:
  "boldTypeIssue \<in> set (detailsIssues (d\<lparr>appearsBold := Some False\<rparr>) i)"
  by (simp add: detailsIssues_def Let_def boldTypeIssue_def)

lemma boldTypeIssue_not_added:
  assumes "boldTypeIssue \<notin> set i" "boldTypeIssue \<notin> set (detailIssues d)"
  shows "boldTypeIssue \<notin> set (detailsIssues (d\<lparr>appearsBold := None\<rparr>) i)"
proof -
  have "boldTypeIssue \<noteq> js ''\"GOVERNMENT WARNING:\" prefix not in ALL CAPS''"
    "boldTypeIssue \<noteq> js ''Government warning text appears incomplete''"
    by (simp_all add: boldTypeIssue_def js_def)
  with assms show ?thesis by (simp add: detailsIssues_def Let_def)
qed

lemma enhanced_issues_bold:
  assumes "present (validateGovernmentWarning (governmentWarning e))"
  shows "boldTypeIssue \<in> set (issues (validateGovernmentWarningEnhanced
           (e\<lparr>governmentWarningDetails := Some (d\<lparr>appearsBold := Some False\<rparr>)\<rparr>)))"
  using assms
  by (simp add: validateGovernmentWarningEnhanced_def Let_def boldTypeIssue_added)

text \<open>
  C10: the enhanced validation, and with it the whole result of \<open>verifyLabel\<close> apart from
  the copy of the input that it carries, is the same whatever the flag
  \<open>onContrastingBackground\<close> is, and the same for \<open>appearsBold = true\<close> as for
  \<open>appearsBold = null\<close>. For a present warning, \<open>appearsBold = false\<close> puts the bold-type
  issue into the list of issues; with \<open>appearsBold = null\<close> that issue is in the list only
  if the basic issues or the extracted detail issues already contain it.
\<close>

theorem validateGovernmentWarningEnhanced_flags:
  "validateGovernmentWarningEnhanced
       (e\<lparr>governmentWarningDetails := Some (d\<lparr>onContrastingBackground := b\<rparr>)\<rparr>)
     = validateGovernmentWarningEnhanced (e\<lparr>governmentWarningDetails := Some d\<rparr>)
   \<and> verifyLabel a (e\<lparr>governmentWarningDetails := Some (d\<lparr>onContrastingBackground := b\<rparr>)\<rparr>) t
     = (verifyLabel a (e\<lparr>governmentWarningDetails := Some d\<rparr>) t)
         \<lparr>extractedData := e\<lparr>governmentWarningDetails := Some (d\<lparr>onContrastingBackground := b\<rparr>)\<rparr>\<rparr>
   \<and> validateGovernmentWarningEnhanced
       (e\<lparr>governmentWarningDetails := Some (d\<lparr>appearsBold := Some True\<rparr>)\<rparr>)
     = validateGovernmentWarningEnhanced
         (e\<lparr>governmentWarningDetails := Some (d\<lparr>appearsBold := None\<rparr>)\<rparr>)
   \<and> verifyLabel a (e\<lparr>governmentWarningDetails := Some (d\<lparr>appearsBold := Some True\<rparr>)\<rparr>) t
     = (verifyLabel a (e\<lparr>governmentWarningDetails := Some (d\<lparr>appearsBold := None\<rparr>)\<rparr>) t)
         \<lparr>extractedData := e\<lparr>governmentWarningDetails := Some (d\<lparr>appearsBold := Some True\<rparr>)\<rparr>\<rparr>
   \<and> (present (validateGovernmentWarning (governmentWarning e)) \<longrightarrow>
        boldTypeIssue \<in> set (issues (validateGovernmentWarningEnhanced
           (e\<lparr>governmentWarningDetails := Some (d\<lparr>appearsBold := Some False\<rparr>)\<rparr>))))
   \<and> (boldTypeIssue \<notin> set i \<and> boldTypeIssue \<notin> set (detailIssues d) \<longrightarrow>
        boldTypeIssue \<notin> set (detailsIssues (d\<lparr>appearsBold := None\<rparr>) i))"
proof -
  have 1: "validateGovernmentWarningEnhanced
       (e\<lparr>governmentWarningDetails := Some (d\<lparr>onContrastingBackground := b\<rparr>)\<rparr>)
     = validateGovernmentWarningEnhanced (e\<lparr>governmentWarningDetails := Some d\<rparr>)"
    by (rule enhanced_flags)
  have 2: "validateGovernmentWarningEnhanced
       (e\<lparr>governmentWarningDetails := Some (d\<lparr>appearsBold := Some True\<rparr>)\<rparr>)
     = validateGovernmentWarningEnhanced
         (e\<lparr>governmentWarningDetails := Some (d\<lparr>appearsBold := None\<rparr>)\<rparr>)"
    by (rule enhanced_flags)
  from 1 have 3: "verifyLabel a (e\<lparr>governmentWarningDetails := Some (d\<lparr>onContrastingBackground := b\<rparr>)\<rparr>) t
     = (verifyLabel a (e\<lparr>governmentWarningDetails := Some d\<rparr>) t)
         \<lparr>extractedData := e\<lparr>governmentWarningDetails := Some (d\<lparr>onContrastingBackground := b\<rparr>)\<rparr>\<rparr>"
    by (rule verifyLabel_details)
  from 2 have 4: "verifyLabel a (e\<lparr>governmentWarningDetails := Some (d\<lparr>appearsBold := Some True\<rparr>)\<rparr>) t
     = (verifyLabel a (e\<lparr>governmentWarningDetails := Some (d\<lparr>appearsBold := None\<rparr>)\<rparr>) t)
         \<lparr>extractedData := e\<lparr>governmentWarningDetails := Some (d\<lparr>appearsBold := Some True\<rparr>)\<rparr>\<rparr>"
    by (rule verifyLabel_details)
  have 5: "present (validateGovernmentWarning (governmentWarning e)) \<longrightarrow>
        boldTypeIssue \<in> set (issues (validateGovernmentWarningEnhanced
           (e\<lparr>governmentWarningDetails := Some (d\<lparr>appearsBold := Some False\<rparr>)\<rparr>)))"
    using enhanced_issues_bold by blast
  have 6: "boldTypeIssue \<notin> set i \<and> boldTypeIssue \<notin> set (detailIssues d) \<longrightarrow>
        boldTypeIssue \<notin> set (detailsIssues (d\<lparr>appearsBold := None\<rparr>) i)"
    using boldTypeIssue_not_added by blast
  from 1 2 3 4 5 6 show ?thesis by blast
qed

theorem validateGovernmentWarningEnhanced_flags_witness:
  "present (validateGovernmentWarning (governmentWarning exampleLabel))
   \<and> boldTypeIssue \<notin> set (detailIssues exampleDetails)
   \<and> validateGovernmentWarningEnhanced
       (exampleLabel\<lparr>governmentWarningDetails :=
          Some (exampleDetails\<lparr>onContrastingBackground := Some False\<rparr>)\<rparr>)
     = validateGovernmentWarningEnhanced (exampleLabel\<lparr>governmentWarningDetails := Some exampleDetails\<rparr>)
   \<and> status (verifyLabel exampleApplication
        (exampleLabel\<lparr>governmentWarningDetails := Some (exampleDetails\<lparr>appearsBold := Some True\<rparr>)\<rparr>) 1200)
     = status (verifyLabel exampleApplication
        (exampleLabel\<lparr>governmentWarningDetails := Some (exampleDetails\<lparr>appearsBold := None\<rparr>)\<rparr>) 1200)
   \<and> boldTypeIssue \<in> set (issues (validateGovernmentWarningEnhanced
        (exampleLabel\<lparr>governmentWarningDetails := Some (exampleDetails\<lparr>appearsBold := Some False\<rparr>)\<rparr>)))
   \<and> boldTypeIssue \<notin> set (detailsIssues (exampleDetails\<lparr>appearsBold := None\<rparr>) [])"
proof -
  have g: "governmentWarning exampleLabel = Some GOVERNMENT_WARNING_TEXT"
    by (simp add: exampleLabel_def emptyLabel_def)
  have "includes_str GOVERNMENT_WARNING_TEXT (js ''GOVERNMENT WARNING:'')" by code_simp
  then have p: "present (validateGovernmentWarning (governmentWarning exampleLabel))"
    unfolding g by (simp add: validate_basic stringSimilarity_refl)
  have n: "boldTypeIssue \<notin> set []" "boldTypeIssue \<notin> set (detailIssues exampleDetails)"
    by (simp_all add: exampleDetails_def)
  from validateGovernmentWarningEnhanced_flags
         [where e = exampleLabel and d = exampleDetails and b = "Some False"
            and a = exampleApplication and t = 1200 and i = "[]"] p n
  show ?thesis by simp
qed

subsection \<open>The decision of \<open>verifyLabel\<close>\<close>

lemma field_verifyField: "field (verifyField n a l f) = n"
  by (simp add: verifyField_def Let_def)

lemma warningValidation_gather:
  "warningValidation (gather a e) = validateGovernmentWarningEnhanced e"
  by (simp add: gather_def Let_def split: prod.split)

lemma verifications_gather: "verifications (gather a e) = fst (gatherFields a e)"
  by (simp add: gather_def Let_def split: prod.split)

lemma gatherFields_prefix:
  "\<exists>rest. fst (gatherFields a e) =
     brandNameVerification a e # classTypeVerification a e # alcoholVerification a e # rest"
  by (simp add: gatherFields_def Let_def)

lemma js_field_names:
  "js ''Brand Name'' \<noteq> js ''Alcohol Content''" "js ''Class/Type'' \<noteq> js ''Alcohol Content''"
  by (simp_all add: js_def)

lemma found_brand:
  "foundMatches (js ''Brand Name'') (verifications (gather a e))
     = matches (brandNameVerification a e)"
  "foundConfidence (js ''Brand Name'') (verifications (gather a e))
     = confidence (brandNameVerification a e)"
proof -
  obtain rest where r: "fst (gatherFields a e) =
     brandNameVerification a e # classTypeVerification a e # alcoholVerification a e # rest"
    using gatherFields_prefix by blast
  show "foundMatches (js ''Brand Name'') (verifications (gather a e))
          = matches (brandNameVerification a e)"
    by (simp add: foundMatches_def verifications_gather r brandNameVerification_def
        field_verifyField)
  show "foundConfidence (js ''Brand Name'') (verifications (gather a e))
          = confidence (brandNameVerification a e)"
    by (simp add: foundConfidence_def verifications_gather r brandNameVerification_def
        field_verifyField)
qed

lemma found_alcohol:
  "foundMatches (js ''Alcohol Content'') (verifications (gather a e))
     = matches (alcoholVerification a e)"
proof -
  obtain rest where r: "fst (gatherFields a e) =
     brandNameVerification a e # classTypeVerification a e # alcoholVerification a e # rest"
    using gatherFields_prefix by blast
  show ?thesis
    by (simp add: foundMatches_def verifications_gather r brandNameVerification_def
        classTypeVerification_def alcoholVerification_def field_verifyField js_field_names)
qed

lemma decide_approved:
  assumes "fst (decide g ov) = approved"
  shows "length (filter matches (verifications g)) = length (verifications g)
         \<and> correct (warningValidation g) \<and> ov \<ge> autoApprovalMinimum
         \<and> snd (snd (decide g ov)) = []"
  using assms by (simp add: decide_def Let_def split: if_splits)

lemma decide_critical:
  assumes "list_ex (\<lambda>f. f) (criticalFailures g)"
  shows "fst (decide g ov) =
           (if ov \<ge> threshold_medium \<and> reasons g \<noteq> [] then needs_review else rejected)"
  using assms by (simp add: decide_def Let_def)

lemma verifyLabel_fields:
  "status (verifyLabel a e t)
     = fst (decide (gather a e) (computeOverallConfidence (gather a e) e))"
  "humanReviewReasons (verifyLabel a e t)
     = snd (snd (decide (gather a e) (computeOverallConfidence (gather a e) e)))"
  "overallConfidence (verifyLabel a e t) = computeOverallConfidence (gather a e) e"
  "matchedFields (verifyLabel a e t) = length (filter matches (verifications (gather a e)))"
  "totalFields (verifyLabel a e t) = length (verifications (gather a e))"
  "governmentWarningCorrect (verifyLabel a e t) = correct (validateGovernmentWarningEnhanced e)"
  "governmentWarningPresent (verifyLabel a e t) = present (validateGovernmentWarningEnhanced e)"
  by (simp_all add: verifyLabel_def Let_def warningValidation_gather split: prod.split)

text \<open>
  C1: whenever \<open>verifyLabel\<close> returns the status \<open>approved\<close>, the number of matched fields
  equals the number of fields, the warning validation reported \<open>correct\<close>, the overall
  confidence is at least 0.85, and the returned list of human-review reasons is empty.
\<close>

theorem verifyLabel_approved:
  assumes "status (verifyLabel a e t) = approved"
  shows "matchedFields (verifyLabel a e t) = totalFields (verifyLabel a e t)
         \<and> correct (validateGovernmentWarningEnhanced e)
         \<and> governmentWarningCorrect (verifyLabel a e t)
         \<and> overallConfidence (verifyLabel a e t) \<ge> 0.85
         \<and> humanReviewReasons (verifyLabel a e t) = []"
proof -
  from assms
  have "fst (decide (gather a e) (computeOverallConfidence (gather a e) e)) = approved"
    by (simp add: verifyLabel_fields)
  from decide_approved [OF this] show ?thesis
    by (simp add: verifyLabel_fields warningValidation_gather autoApprovalMinimum_def)
qed

theorem verifyLabel_approved_witness:
  "status (verifyLabel exampleApplication exampleLabel 1200) = approved
   \<and> matchedFields (verifyLabel exampleApplication exampleLabel 1200)
       = totalFields (verifyLabel exampleApplication exampleLabel 1200)
   \<and> governmentWarningCorrect (verifyLabel exampleApplication exampleLabel 1200)
   \<and> overallConfidence (verifyLabel exampleApplication exampleLabel 1200) \<ge> 0.85
   \<and> humanReviewReasons (verifyLabel exampleApplication exampleLabel 1200) = []"
proof -
  have h: "status (verifyLabel exampleApplication exampleLabel 1200) = approved"
    by code_simp
  from verifyLabel_approved [OF h] h show ?thesis by simp
qed

text \<open>
  C2: when one of the four critical failures holds (the warning is absent; the warning is
  present but incorrect with a warning confidence below 0.85; the brand name does not match
  and its confidence is below 0.70; the alcohol content does not match), the status is
  \<open>needs_review\<close> if the overall confidence is at least 0.70 and a human-review reason has
  been collected before the decision, and \<open>rejected\<close> otherwise; it is never \<open>approved\<close>.
\<close>

theorem verifyLabel_critical_failure:
  assumes "\<not> present (validateGovernmentWarningEnhanced e)
           \<or> (present (validateGovernmentWarningEnhanced e)
               \<and> \<not> correct (validateGovernmentWarningEnhanced e)
               \<and> warningConfidence (validateGovernmentWarningEnhanced e) < 0.85)
           \<or> (\<not> matches (brandNameVerification a e)
               \<and> confidence (brandNameVerification a e) < 0.70)
           \<or> \<not> matches (alcoholVerification a e)"
  shows "status (verifyLabel a e t) =
           (if overallConfidence (verifyLabel a e t) \<ge> 0.70 \<and> reasons (gather a e) \<noteq> []
            then needs_review else rejected)
         \<and> status (verifyLabel a e t) \<noteq> approved"
proof -
  from assms have "list_ex (\<lambda>f. f) (criticalFailures (gather a e))"
    by (auto simp add: criticalFailures_def warningValidation_gather found_brand found_alcohol
        reviewThreshold_def)
  from decide_critical [OF this] show ?thesis
    by (simp add: verifyLabel_fields threshold_medium_def)
qed

theorem verifyLabel_critical_failure_witness:
  "\<not> present (validateGovernmentWarningEnhanced emptyLabel)
   \<and> \<not> matches (alcoholVerification exampleApplication emptyLabel)
   \<and> reasons (gather exampleApplication emptyLabel) = []
   \<and> status (verifyLabel exampleApplication emptyLabel 1200) = rejected
   \<and> \<not> present (validateGovernmentWarningEnhanced unwarnedLabel)
   \<and> reasons (gather oddSizeApplication unwarnedLabel)
       = [js ''Non-standard container size: 800 mL'']
   \<and> overallConfidence (verifyLabel oddSizeApplication unwarnedLabel 1200) = 0.95
   \<and> status (verifyLabel oddSizeApplication unwarnedLabel 1200) = needs_review"
proof -
  have h: "\<not> present (validateGovernmentWarningEnhanced emptyLabel)"
    by code_simp
  have m: "\<not> matches (alcoholVerification exampleApplication emptyLabel)"
    by code_simp
  have r: "reasons (gather exampleApplication emptyLabel) = []"
    by code_simp
  from h have "\<not> present (validateGovernmentWarningEnhanced emptyLabel)
           \<or> (present (validateGovernmentWarningEnhanced emptyLabel)
               \<and> \<not> correct (validateGovernmentWarningEnhanced emptyLabel)
               \<and> warningConfidence (validateGovernmentWarningEnhanced emptyLabel) < 0.85)
           \<or> (\<not> matches (brandNameVerification exampleApplication emptyLabel)
               \<and> confidence (brandNameVerification exampleApplication emptyLabel) < 0.70)
           \<or> \<not> matches (alcoholVerification exampleApplication emptyLabel)"
    by simp
  from verifyLabel_critical_failure [OF this, of 1200] r
  have 1: "status (verifyLabel exampleApplication emptyLabel 1200) = rejected" by simp
  have h': "\<not> present (validateGovernmentWarningEnhanced unwarnedLabel)"
    by code_simp
  have r': "reasons (gather oddSizeApplication unwarnedLabel)
              = [js ''Non-standard container size: 800 mL'']"
    by code_simp
  have c': "overallConfidence (verifyLabel oddSizeApplication unwarnedLabel 1200) = 0.95"
    by code_simp
  from h' have "\<not> present (validateGovernmentWarningEnhanced unwarnedLabel)
           \<or> (present (validateGovernmentWarningEnhanced unwarnedLabel)
               \<and> \<not> correct (validateGovernmentWarningEnhanced unwarnedLabel)
               \<and> warningConfidence (validateGovernmentWarningEnhanced unwarnedLabel) < 0.85)
           \<or> (\<not> matches (brandNameVerification oddSizeApplication unwarnedLabel)
               \<and> confidence (brandNameVerification oddSizeApplication unwarnedLabel) < 0.70)
           \<or> \<not> matches (alcoholVerification oddSizeApplication unwarnedLabel)"
    by simp
  from verifyLabel_critical_failure [OF this, of 1200] r' c'
  have 2: "status (verifyLabel oddSizeApplication unwarnedLabel 1200) = needs_review"
    by (simp add: js_def)
  from h m r 1 h' r' c' 2 show ?thesis by blast
qed

end
